theory Spec2Isabelle
  imports Complex_Main "HOL-Library.Sublist"
begin

section \<open>Strings of the host language\<close>

text \<open>
  The jobs are JavaScript. A string is modelled as a \<open>string\<close> whose characters are
  read as the code units 0..255 (ASCII and Latin-1), the range in which indicator names,
  sheet names and file names of the pipeline live. Numbers are modelled as rationals
  (the finite values), with the not-a-number value a constructor of its own where
  the code can meet it.
\<close>

text \<open>White space as \<open>\s\<close> and \<open>trim\<close> see it: TAB, LF, VT, FF, CR, space, NBSP.\<close>

definition isSpace :: "char \<Rightarrow> bool" where
  "isSpace c = (let n = of_char c :: nat in (9 \<le> n \<and> n \<le> 13) \<or> n = 32 \<or> n = 160)"

text \<open>\<open>String.prototype.toLowerCase\<close> on one code unit: A-Z and the Latin-1 capitals
  (0xC0-0xDE without the multiplication sign 0xD7) move up by 32.\<close>

definition toLowerChar :: "char \<Rightarrow> char" where
  "toLowerChar c =
     (let n = of_char c :: nat in
      if (65 \<le> n \<and> n \<le> 90) \<or> (192 \<le> n \<and> n \<le> 222 \<and> n \<noteq> 215)
      then char_of (n + 32) else c)"

definition toLowerCase :: "string \<Rightarrow> string" where
  "toLowerCase s = map toLowerChar s"

definition trim :: "string \<Rightarrow> string" where
  "trim s = rev (dropWhile isSpace (rev (dropWhile isSpace s)))"

text \<open>\<open>s.startsWith(t)\<close> and \<open>s.includes(t)\<close> (the latter under the name \<open>includesStr\<close>).\<close>

fun startsWith :: "string \<Rightarrow> string \<Rightarrow> bool" where
  "startsWith s [] = True"
| "startsWith [] (d # t) = False"
| "startsWith (c # s) (d # t) = (c = d \<and> startsWith s t)"

fun includesStr :: "string \<Rightarrow> string \<Rightarrow> bool" where
  "includesStr [] t = (t = [])"
| "includesStr (c # s) t = (startsWith (c # s) t \<or> includesStr s t)"

text \<open>
  \<open>s.split(/[\s\-_]+/)\<close>: the pieces between maximal runs of white space, hyphens and
  underscores. A separator run at the start or the end leaves an empty piece there, and
  the empty string splits into one empty piece.
\<close>

definition isSeparator :: "char \<Rightarrow> bool" where
  "isSeparator c = (isSpace c \<or> c = CHR ''-'' \<or> c = CHR ''_'')"

function splitFrom :: "string \<Rightarrow> string \<Rightarrow> string list" where
  "splitFrom acc [] = [rev acc]"
| "splitFrom acc (c # cs) =
     (if isSeparator c then rev acc # splitFrom [] (dropWhile isSeparator cs)
      else splitFrom (c # acc) cs)"
  by pat_completeness auto
termination
  by (relation "measure (\<lambda>(acc, s). length s)")
     (auto simp: le_imp_less_Suc length_dropWhile_le)

definition splitWords :: "string \<Rightarrow> string list" where
  "splitWords s = splitFrom [] s"

section \<open>The fuzzy matcher\<close>

text \<open>
  \<open>findFuzzyMatch(target, candidates)\<close> of generate-dhis2-payload.js (both copies are
  the same text). The inner two loops add to \<open>score\<close>; the outer loop carries
  \<open>bestMatch\<close> and \<open>bestScore\<close>; \<open>null\<close> is \<open>None\<close>. The normalized score
  is the exact fraction: the quotients the job computes are those of two small whole
  numbers, which compare with each other and with 0.5 as the fractions do.
\<close>

definition wordScore :: "string \<Rightarrow> string \<Rightarrow> nat" where
  "wordScore targetWord candidateWord =
     (if targetWord = candidateWord then 2
      else if includesStr targetWord candidateWord \<or> includesStr candidateWord targetWord then 1
      else 0)"

definition overlapScore :: "string list \<Rightarrow> string list \<Rightarrow> nat" where
  "overlapScore targetWords candidateWords =
     foldl (\<lambda>score targetWord.
              foldl (\<lambda>score candidateWord. score + wordScore targetWord candidateWord)
                    score candidateWords)
           0 targetWords"

definition normalizedScore :: "string \<Rightarrow> string \<Rightarrow> rat" where
  "normalizedScore target candidate =
     (let targetWords = splitWords (toLowerCase target);
          candidateWords = splitWords (toLowerCase candidate)
      in of_nat (overlapScore targetWords candidateWords)
           / of_nat (max (length targetWords) (length candidateWords)))"

definition fuzzyStep :: "string \<Rightarrow> string option \<times> rat \<Rightarrow> string \<Rightarrow> string option \<times> rat" where
  "fuzzyStep target best candidate =
     (let normalized = normalizedScore target candidate in
      if normalized > snd best \<and> normalized > 1 / 2 then (Some candidate, normalized)
      else best)"

definition findFuzzyMatch :: "string \<Rightarrow> string list \<Rightarrow> string option" where
  "findFuzzyMatch target candidates = fst (foldl (fuzzyStep target) (None, 0) candidates)"

section \<open>Cell values and objects\<close>

text \<open>
  What a cell or a property can hold: nothing (\<open>undefined\<close>), \<open>null\<close>, the
  not-a-number value, a finite number, or a text.
\<close>

datatype jsval = Undefined | Null | NaN | Num rat | Str string

definition truthy :: "jsval \<Rightarrow> bool" where
  "truthy v = (case v of Undefined \<Rightarrow> False | Null \<Rightarrow> False | NaN \<Rightarrow> False
                 | Num r \<Rightarrow> r \<noteq> 0 | Str s \<Rightarrow> s \<noteq> [])"

text \<open>\<open>a || b\<close> on values, and on names (a name is a text or absent).\<close>

definition orElse :: "jsval \<Rightarrow> jsval \<Rightarrow> jsval" where
  "orElse a b = (if truthy a then a else b)"

definition orName :: "string option \<Rightarrow> string option \<Rightarrow> string option" where
  "orName a b = (case a of None \<Rightarrow> b | Some s \<Rightarrow> if s \<noteq> [] then a else b)"

text \<open>
  \<open>parseFloat\<close> is a builtin of the host language. On a number it gives the number
  back; on \<open>undefined\<close>, \<open>null\<close> and not-a-number it gives not-a-number (\<open>None\<close>
  here); its reading of a text is taken as the parameter \<open>strToNum\<close>.
  \<open>parseFloat(v) || 0\<close> is \<open>numberOrZero\<close>.
\<close>

definition parseFloat :: "(string \<Rightarrow> rat option) \<Rightarrow> jsval \<Rightarrow> rat option" where
  "parseFloat strToNum v = (case v of Num r \<Rightarrow> Some r | Str s \<Rightarrow> strToNum s | _ \<Rightarrow> None)"

definition numberOrZero :: "(string \<Rightarrow> rat option) \<Rightarrow> jsval \<Rightarrow> rat" where
  "numberOrZero strToNum v = (case parseFloat strToNum v of None \<Rightarrow> 0 | Some r \<Rightarrow> r)"

text \<open>
  An instance of the text reading for evaluating examples: a text made of decimal
  digits only is read as that numeral, on which it agrees with the builtin.
\<close>

definition isDigit :: "char \<Rightarrow> bool" where
  "isDigit c = (let n = of_char c :: nat in 48 \<le> n \<and> n \<le> 57)"

definition digitsValue :: "string \<Rightarrow> int" where
  "digitsValue s = foldl (\<lambda>n c. 10 * n + (of_char c - 48)) 0 s"

definition readDigits :: "string \<Rightarrow> rat option" where
  "readDigits s = (if s \<noteq> [] \<and> list_all isDigit s then Some (of_int (digitsValue s)) else None)"

text \<open>A non-negative integer inside a template literal: its decimal digits.\<close>

function natToString :: "nat \<Rightarrow> string" where
  "natToString n =
     (if n < 10 then [char_of (48 + n)]
      else natToString (n div 10) @ [char_of (48 + n mod 10)])"
  by pat_completeness auto
termination
  by (relation "measure id") auto

declare natToString.simps [simp del]

text \<open>
  An object used as a dictionary is the list of its own properties in insertion order:
  assigning to a present key keeps its place, assigning to a new key appends.
  \<open>Object.keys\<close> lists the keys that are array indices first, in ascending numeric
  order, then the other keys in insertion order.
\<close>

type_synonym 'v obj = "(string \<times> 'v) list"

fun objSet :: "string \<Rightarrow> 'v \<Rightarrow> 'v obj \<Rightarrow> 'v obj" where
  "objSet k v [] = [(k, v)]"
| "objSet k v ((k', v') # ps) = (if k' = k then (k, v) # ps else (k', v') # objSet k v ps)"

definition objGet :: "'v obj \<Rightarrow> string \<Rightarrow> 'v option" where
  "objGet ob k = map_of ob k"

text \<open>
  A plain object inherits the members of \<open>Object.prototype\<close>, whose names are listed
  here. The index of the payload generators is a plain object whose keys come from the
  cells of a workbook, so it can meet these names; the three places where it does are
  modelled: an assignment (\<open>assign\<close>), the call of \<open>hasOwnProperty\<close> through the
  object, and the read of a key that is not an own property (\<open>storeIndicator\<close> below).
  The keys of the tracking maps are names of workbook files (the check job admits a
  name only when it ends in .xlsx or .xls), which are not among these names.
\<close>

definition prototypeMembers :: "string list" where
  "prototypeMembers =
     [''constructor'', ''__defineGetter__'', ''__defineSetter__'', ''hasOwnProperty'',
      ''__lookupGetter__'', ''__lookupSetter__'', ''isPrototypeOf'', ''propertyIsEnumerable'',
      ''toString'', ''valueOf'', ''__proto__'', ''toLocaleString'']"

text \<open>
  \<open>ob[k] = v\<close> for a number \<open>v\<close>. The key \<open>__proto__\<close> names an accessor of the
  prototype: unless the object has an own property of that name, the assignment goes to
  the accessor, which ignores a number, and the object gets no own property.
\<close>

definition assign :: "string \<Rightarrow> 'v \<Rightarrow> 'v obj \<Rightarrow> 'v obj" where
  "assign k v ob = (if k = ''__proto__'' \<and> objGet ob k = None then ob else objSet k v ob)"

text \<open>
  \<open>ob.hasOwnProperty(k)\<close>. The method is looked up on the object itself first: when
  the object has an own property named \<open>hasOwnProperty\<close>, that property (a number in
  the index) is what gets called, and the call throws a TypeError.
\<close>

datatype jsError = TypeError

definition hasOwnProperty :: "'v obj \<Rightarrow> string \<Rightarrow> jsError + bool" where
  "hasOwnProperty ob k =
     (if objGet ob ''hasOwnProperty'' \<noteq> None then Inl TypeError else Inr (objGet ob k \<noteq> None))"

definition objDelete :: "string \<Rightarrow> 'v obj \<Rightarrow> 'v obj" where
  "objDelete k ob = filter (\<lambda>p. fst p \<noteq> k) ob"

definition isArrayIndex :: "string \<Rightarrow> bool" where
  "isArrayIndex s =
     (s \<noteq> [] \<and> list_all isDigit s \<and> (length s = 1 \<or> hd s \<noteq> CHR ''0'')
      \<and> digitsValue s < 4294967295)"

definition Object_keys :: "'v obj \<Rightarrow> string list" where
  "Object_keys ob =
     (let ks = map fst ob
      in sort_key digitsValue (filter isArrayIndex ks) @ filter (\<lambda>k. \<not> isArrayIndex k) ks)"

definition Object_entries :: "'v obj \<Rightarrow> (string \<times> 'v) list" where
  "Object_entries ob = List.map_filter (\<lambda>k. map_option (Pair k) (objGet ob k)) (Object_keys ob)"

section \<open>The payload generator of the reports workflow\<close>

text \<open>
  \<open>generatePayload(inputData, reportConfig)\<close> of
  reports-data-upload-workflow/jobs/generate-dhis2-payload.js. A row is read through the
  properties the job looks at; indicator and site cells are texts (or absent), value
  cells are any value. \<open>hivStagesReportMapping\<close> and \<open>sheets\<close> are given as the
  lists \<open>Object.entries\<close> yields for them. The console output is not modelled.
\<close>

record sheetRow =
  row_Indicator :: "string option"
  row_Indicator_Name :: "string option"
  row_indicator :: "string option"
  row_Value :: jsval
  row_Count :: jsval
  row_Total :: jsval
  row_value :: jsval
  row_Site :: "string option"
  row_site :: "string option"

record rawIndicator =
  ri_indicator :: "string option"
  ri_value :: jsval
  ri_rowIndex :: nat

record rawQuery =
  rq_site :: string
  rq_indicator :: string
  rq_value :: jsval

record rawFile =
  rf_fileName :: string
  rf_indicators :: "rawIndicator list option"
  rf_queries :: "rawQuery list option"
  rf_sites :: "rawQuery list option"

record inputData =
  in_source :: "string option"
  in_sheets :: "(string \<times> sheetRow list) list option"
  in_processedData :: "sheetRow list option"
  in_processedFiles :: "rawFile list option"

record reportConfig =
  catAttrCombo :: string
  dataSet :: string
  period :: string
  orgUnit :: string
  hivStagesReportMapping :: "(string \<times> string) list"

record matchingStats =
  exactMatches :: nat
  partialMatches :: nat
  noMatches :: nat
  defaultValues :: nat

record dataValue =
  dataElement :: string
  dv_period :: string
  dv_orgUnit :: string
  categoryOptionCombo :: string
  attributeOptionCombo :: string
  dv_value :: rat
  matchType :: string
  originalIndicator :: string

record payload =
  p_dataSet :: string
  p_period :: string
  p_orgUnit :: string
  dataValues :: "dataValue list"
  dataSource :: string
  generatedAt :: string
  p_matchingStats :: matchingStats

subsection \<open>Building the index of observed values\<close>

text \<open>One row of the SFTP Excel format (lines 27-40): the key and the number it stores,
  or nothing when the guard skips the row.\<close>

definition sftpRowEntry :: "(string \<Rightarrow> rat option) \<Rightarrow> sheetRow \<Rightarrow> (string \<times> rat) option" where
  "sftpRowEntry strToNum row =
     (let indicatorName = orName (row_Indicator row) (row_indicator row);
          val = orElse (row_Value row) (row_value row);
          site = orName (row_Site row) (row_site row)
      in case indicatorName of
           None \<Rightarrow> None
         | Some name \<Rightarrow>
             if name \<noteq> [] \<and> val \<noteq> Undefined \<and> val \<noteq> Str [] then
               (let indicatorKey =
                      (case site of
                         None \<Rightarrow> name
                       | Some s \<Rightarrow> if s \<noteq> [] then s @ ''_'' @ name else name)
                in Some (trim indicatorKey, numberOrZero strToNum val))
             else None)"

text \<open>One row of the Google Sheets format (lines 50-60).\<close>

definition sheetsRowEntry :: "(string \<Rightarrow> rat option) \<Rightarrow> sheetRow \<Rightarrow> (string \<times> rat) option" where
  "sheetsRowEntry strToNum row =
     (let indicatorName =
            orName (row_Indicator row) (orName (row_Indicator_Name row) (row_indicator row));
          val = orElse (row_Value row)
                  (orElse (row_Count row) (orElse (row_Total row) (row_value row)))
      in case indicatorName of
           None \<Rightarrow> None
         | Some name \<Rightarrow>
             if name \<noteq> [] \<and> val \<noteq> Undefined \<and> val \<noteq> Str [] then
               Some (trim name, numberOrZero strToNum val)
             else None)"

text \<open>The assignment \<open>indicatorValues[key] = number\<close>, done for a row that has an entry.\<close>

definition store :: "rat obj \<Rightarrow> (string \<times> rat) option \<Rightarrow> rat obj" where
  "store indicatorValues entry =
     (case entry of None \<Rightarrow> indicatorValues | Some (k, v) \<Rightarrow> assign k v indicatorValues)"

text \<open>The raw Excel format (lines 68-97): indicators, then queries, then sites of a file.\<close>

definition rawIndicatorEntry ::
  "(string \<Rightarrow> rat option) \<Rightarrow> string \<Rightarrow> rawIndicator \<Rightarrow> (string \<times> rat) option" where
  "rawIndicatorEntry strToNum fileName indicator =
     (let key = (case ri_indicator indicator of
                   None \<Rightarrow> fileName @ ''_'' @ natToString (ri_rowIndex indicator)
                 | Some s \<Rightarrow> if s \<noteq> [] then s
                            else fileName @ ''_'' @ natToString (ri_rowIndex indicator))
      in Some (trim key, numberOrZero strToNum (ri_value indicator)))"

definition rawQueryEntry :: "(string \<Rightarrow> rat option) \<Rightarrow> rawQuery \<Rightarrow> (string \<times> rat) option" where
  "rawQueryEntry strToNum query =
     Some (trim (rq_site query @ ''_'' @ rq_indicator query),
           numberOrZero strToNum (rq_value query))"

definition storeRawFile :: "(string \<Rightarrow> rat option) \<Rightarrow> rat obj \<Rightarrow> rawFile \<Rightarrow> rat obj" where
  "storeRawFile strToNum indicatorValues file =
     (let iv1 = (case rf_indicators file of
                   None \<Rightarrow> indicatorValues
                 | Some indicators \<Rightarrow>
                     foldl (\<lambda>iv i. store iv (rawIndicatorEntry strToNum (rf_fileName file) i))
                           indicatorValues indicators);
          iv2 = (case rf_queries file of
                   None \<Rightarrow> iv1
                 | Some queries \<Rightarrow> foldl (\<lambda>iv q. store iv (rawQueryEntry strToNum q)) iv1 queries)
      in case rf_sites file of
           None \<Rightarrow> iv2
         | Some sites \<Rightarrow> foldl (\<lambda>iv q. store iv (rawQueryEntry strToNum q)) iv2 sites)"

text \<open>Lines 14-98: the index and the name of the data source.\<close>

definition extractIndicatorValues ::
  "(string \<Rightarrow> rat option) \<Rightarrow> inputData option \<Rightarrow> rat obj \<times> string" where
  "extractIndicatorValues strToNum inputData =
     (case inputData of
        None \<Rightarrow> ([], ''unknown'')
      | Some d \<Rightarrow>
          if in_source d = Some ''sftp_excel'' then
            ((case in_sheets d of
                None \<Rightarrow> []
              | Some sheets \<Rightarrow>
                  foldl (\<lambda>iv (sheetType, rows).
                           foldl (\<lambda>iv row. store iv (sftpRowEntry strToNum row)) iv rows)
                        [] sheets),
             ''SFTP Excel'')
          else case in_processedData d of
            Some rows \<Rightarrow>
              (foldl (\<lambda>iv row. store iv (sheetsRowEntry strToNum row)) [] rows, ''Google Sheets'')
          | None \<Rightarrow>
              (case in_processedFiles d of
                 Some files \<Rightarrow> (foldl (storeRawFile strToNum) [] files, ''Raw Excel'')
               | None \<Rightarrow> ([], ''unknown'')))"

subsection \<open>The cascade of matching strategies\<close>

text \<open>
  The variables of one round of the loop over \<open>hivStagesReportMapping\<close> (lines 112-178):
  \<open>value\<close> (\<open>None\<close> while undefined), \<open>matchType\<close> and the running statistics.
  A key found by \<open>find\<close> is used only when it is truthy, that is, not the empty text.
  The first strategy calls \<open>indicatorValues.hasOwnProperty\<close>; when that call throws,
  the round, the loop and the generator end with the error.
\<close>

record matchVars =
  mv_value :: "rat option"
  mv_matchType :: string
  mv_stats :: matchingStats

definition exactStrategy :: "rat obj \<Rightarrow> string \<Rightarrow> matchVars \<Rightarrow> jsError + matchVars" where
  "exactStrategy indicatorValues indicatorKey m =
     (case hasOwnProperty indicatorValues indicatorKey of
        Inl e \<Rightarrow> Inl e
      | Inr found \<Rightarrow>
          Inr (if found then
                 m\<lparr>mv_value := objGet indicatorValues indicatorKey,
                   mv_matchType := ''exact'',
                   mv_stats := (mv_stats m)\<lparr>exactMatches := exactMatches (mv_stats m) + 1\<rparr>\<rparr>
               else m))"

definition caseInsensitiveStrategy :: "rat obj \<Rightarrow> string \<Rightarrow> matchVars \<Rightarrow> matchVars" where
  "caseInsensitiveStrategy indicatorValues indicatorKey m =
     (if mv_value m = None then
        (case List.find (\<lambda>key. toLowerCase key = toLowerCase indicatorKey)
                        (Object_keys indicatorValues) of
           None \<Rightarrow> m
         | Some exactMatch \<Rightarrow>
             if exactMatch \<noteq> [] then
               m\<lparr>mv_value := objGet indicatorValues exactMatch,
                 mv_matchType := ''exact_case_insensitive'',
                 mv_stats := (mv_stats m)\<lparr>exactMatches := exactMatches (mv_stats m) + 1\<rparr>\<rparr>
             else m)
      else m)"

definition partialStrategy :: "rat obj \<Rightarrow> string \<Rightarrow> matchVars \<Rightarrow> matchVars" where
  "partialStrategy indicatorValues indicatorKey m =
     (if mv_value m = None then
        (case List.find (\<lambda>key. includesStr (toLowerCase key) (toLowerCase indicatorKey)
                              \<or> includesStr (toLowerCase indicatorKey) (toLowerCase key))
                        (Object_keys indicatorValues) of
           None \<Rightarrow> m
         | Some partialMatch \<Rightarrow>
             if partialMatch \<noteq> [] then
               m\<lparr>mv_value := objGet indicatorValues partialMatch,
                 mv_matchType := ''partial'',
                 mv_stats := (mv_stats m)\<lparr>partialMatches := partialMatches (mv_stats m) + 1\<rparr>\<rparr>
             else m)
      else m)"

definition fuzzyStrategy :: "rat obj \<Rightarrow> string \<Rightarrow> matchVars \<Rightarrow> matchVars" where
  "fuzzyStrategy indicatorValues indicatorKey m =
     (if mv_value m = None then
        (case findFuzzyMatch indicatorKey (Object_keys indicatorValues) of
           None \<Rightarrow> m
         | Some fuzzyMatch \<Rightarrow>
             if fuzzyMatch \<noteq> [] then
               m\<lparr>mv_value := objGet indicatorValues fuzzyMatch,
                 mv_matchType := ''fuzzy'',
                 mv_stats := (mv_stats m)\<lparr>partialMatches := partialMatches (mv_stats m) + 1\<rparr>\<rparr>
             else m)
      else m)"

definition defaultStrategy :: "matchVars \<Rightarrow> rat \<times> string \<times> matchingStats" where
  "defaultStrategy m =
     (case mv_value m of
        None \<Rightarrow> (0, ''default'', (mv_stats m)\<lparr>noMatches := noMatches (mv_stats m) + 1\<rparr>)
      | Some v \<Rightarrow> (v, mv_matchType m, mv_stats m))"

definition matchIndicator ::
  "rat obj \<Rightarrow> string \<Rightarrow> matchingStats \<Rightarrow> jsError + rat \<times> string \<times> matchingStats" where
  "matchIndicator indicatorValues indicatorKey stats =
     (case exactStrategy indicatorValues indicatorKey
             \<lparr>mv_value = None, mv_matchType = ''none'', mv_stats = stats\<rparr> of
        Inl e \<Rightarrow> Inl e
      | Inr m \<Rightarrow>
          Inr (defaultStrategy
                 (fuzzyStrategy indicatorValues indicatorKey
                   (partialStrategy indicatorValues indicatorKey
                     (caseInsensitiveStrategy indicatorValues indicatorKey m)))))"

text \<open>One round of the loop, on \<open>dataValues\<close> and \<open>matchingStats\<close>.\<close>

definition pushDataValue ::
  "reportConfig \<Rightarrow> rat obj \<Rightarrow> dataValue list \<times> matchingStats \<Rightarrow> string \<times> string
     \<Rightarrow> jsError + dataValue list \<times> matchingStats" where
  "pushDataValue reportConfig indicatorValues acc entry =
     (case entry of (indicatorKey, dhis2DataElement) \<Rightarrow>
        (case matchIndicator indicatorValues indicatorKey (snd acc) of
           Inl e \<Rightarrow> Inl e
         | Inr (v, mt, stats) \<Rightarrow>
             Inr (fst acc @
                    [\<lparr>dataElement = dhis2DataElement,
                      dv_period = period reportConfig,
                      dv_orgUnit = orgUnit reportConfig,
                      categoryOptionCombo = catAttrCombo reportConfig,
                      attributeOptionCombo = catAttrCombo reportConfig,
                      dv_value = v,
                      matchType = mt,
                      originalIndicator = indicatorKey\<rparr>],
                  stats)))"

text \<open>The loop: a round that throws ends it, and no later round runs.\<close>

definition matchAll :: "reportConfig \<Rightarrow> rat obj \<Rightarrow> jsError + dataValue list \<times> matchingStats" where
  "matchAll reportConfig indicatorValues =
     foldl (\<lambda>acc entry.
              case acc of
                Inl e \<Rightarrow> Inl e
              | Inr a \<Rightarrow> pushDataValue reportConfig indicatorValues a entry)
           (Inr ([], \<lparr>exactMatches = 0, partialMatches = 0, noMatches = 0, defaultValues = 0\<rparr>))
           (hivStagesReportMapping reportConfig)"

text \<open>
  The whole function: the payload, or the error that ended the loop. \<open>clock\<close> is what
  \<open>new Date().toISOString()\<close> reads when the payload is put together: the only thing
  the function takes from outside its arguments.
\<close>

definition generatePayload ::
  "(string \<Rightarrow> rat option) \<Rightarrow> string \<Rightarrow> inputData option \<Rightarrow> reportConfig
     \<Rightarrow> jsError + payload" where
  "generatePayload strToNum clock inputData reportConfig =
     (case extractIndicatorValues strToNum inputData of (indicatorValues, source) \<Rightarrow>
        (case matchAll reportConfig indicatorValues of
           Inl e \<Rightarrow> Inl e
         | Inr (values, stats) \<Rightarrow>
             Inr \<lparr>p_dataSet = dataSet reportConfig,
                  p_period = period reportConfig,
                  p_orgUnit = orgUnit reportConfig,
                  dataValues = values,
                  dataSource = source,
                  generatedAt = clock,
                  p_matchingStats = stats\<rparr>))"

section \<open>The payload generator of the SFTP workflow\<close>

text \<open>
  \<open>generatePayload(processedFiles, reportConfig)\<close> of the SFTP workflow's
  generate-dhis2-payload job. The matching loop (lines 167-233) is the same text as in
  the reports workflow; the index is built differently (lines 121-154).
\<close>

record excelIndicator =
  xi_indicator :: string
  xi_value :: jsval

record excelQuery =
  xq_site :: string
  xq_indicator :: string
  xq_value :: jsval

record excelData =
  xd_type :: string
  xd_indicators :: "excelIndicator list option"
  xd_queries :: "excelQuery list option"

record processedExcel =
  pe_fileName :: string
  pe_excelData :: excelData

record sftpPayload = payload +
  totalRecords :: nat
  uniqueIndicators :: nat

text \<open>
  Lines 129-140. \<open>indicatorValues[key]\<close> reads the own property of that name, or else
  the member of \<open>Object.prototype\<close> of that name, or else \<open>undefined\<close>. An inherited
  member is a function or an object: it is truthy and compares false with every number.
  So the condition \<open>!indicatorValues[key] || indicatorValues[key] < value\<close> holds when
  the key is an own property that holds 0 or less than the new number, or when it is
  neither an own property nor the name of an inherited member.
\<close>

definition storeIndicator ::
  "(string \<Rightarrow> rat option) \<Rightarrow> rat obj \<times> nat \<Rightarrow> excelIndicator \<Rightarrow> rat obj \<times> nat" where
  "storeIndicator strToNum acc indicator =
     (let indicatorValues = fst acc;
          key = trim (xi_indicator indicator);
          v = numberOrZero strToNum (xi_value indicator)
      in ((if (case objGet indicatorValues key of
                 None \<Rightarrow> key \<notin> set prototypeMembers
               | Some old \<Rightarrow> old = 0 \<or> old < v)
           then assign key v indicatorValues else indicatorValues),
          snd acc + 1))"

text \<open>Lines 145-152.\<close>

definition storeQuery ::
  "(string \<Rightarrow> rat option) \<Rightarrow> rat obj \<times> nat \<Rightarrow> excelQuery \<Rightarrow> rat obj \<times> nat" where
  "storeQuery strToNum acc query =
     (let key = trim (xq_site query @ ''_'' @ xq_indicator query);
          v = numberOrZero strToNum (xq_value query)
      in (assign key v (fst acc), snd acc + 1))"

definition storeProcessedFile ::
  "(string \<Rightarrow> rat option) \<Rightarrow> rat obj \<times> nat \<Rightarrow> processedExcel \<Rightarrow> rat obj \<times> nat" where
  "storeProcessedFile strToNum acc file =
     (let acc1 = (case xd_indicators (pe_excelData file) of
                    None \<Rightarrow> acc
                  | Some indicators \<Rightarrow> foldl (storeIndicator strToNum) acc indicators)
      in case xd_queries (pe_excelData file) of
           None \<Rightarrow> acc1
         | Some queries \<Rightarrow> foldl (storeQuery strToNum) acc1 queries)"

definition collectIndicatorValues ::
  "(string \<Rightarrow> rat option) \<Rightarrow> processedExcel list \<Rightarrow> rat obj \<times> nat" where
  "collectIndicatorValues strToNum processedFiles =
     foldl (storeProcessedFile strToNum) ([], 0) processedFiles"

definition generatePayload_sftp ::
  "(string \<Rightarrow> rat option) \<Rightarrow> string \<Rightarrow> processedExcel list \<Rightarrow> reportConfig
     \<Rightarrow> jsError + sftpPayload" where
  "generatePayload_sftp strToNum clock processedFiles reportConfig =
     (case collectIndicatorValues strToNum processedFiles of (indicatorValues, recordCount) \<Rightarrow>
        (case matchAll reportConfig indicatorValues of
           Inl e \<Rightarrow> Inl e
         | Inr (values, stats) \<Rightarrow>
             Inr \<lparr>p_dataSet = dataSet reportConfig,
                  p_period = period reportConfig,
                  p_orgUnit = orgUnit reportConfig,
                  dataValues = values,
                  dataSource = ''SFTP Excel'',
                  generatedAt = clock,
                  p_matchingStats = stats,
                  totalRecords = recordCount,
                  uniqueIndicators = length (Object_keys indicatorValues)\<rparr>))"

section \<open>The file change tracker\<close>

text \<open>
  The two jobs of the SFTP workflow that read and write \<open>state.fileTracking\<close>. An
  instant is the number of milliseconds since the epoch; writing it with
  \<open>toISOString\<close> and reading it back with \<open>new Date\<close> gives the same instant. Each
  job takes the instant its clock shows as the argument \<open>clock\<close>; one run of a job is
  taken to happen within one instant.
\<close>

record sftpEntry =
  e_type :: string
  e_name :: string
  e_size :: int
  e_modifiedTime :: string

record fileInfo =
  fi_name :: string
  fi_size :: int
  fi_modifiedTime :: string
  fi_path :: string

record trackingInfo =
  t_name :: string
  t_size :: int
  t_modifiedTime :: string
  t_path :: string
  t_processedAt :: "int option"
  t_lastChecked :: "int option"
  t_status :: string
  t_uploadStatus :: "string option"
  t_dhis2Summary :: "(int \<times> int \<times> int) option"

record processedFile =
  pf_name :: string
  pf_size :: int
  pf_modifiedTime :: string
  pf_path :: string

record uploadSummary =
  us_status :: "string option"
  us_imported :: "int option"
  us_updated :: "int option"
  us_ignored :: "int option"

record trackingSummary =
  totalTrackedFiles :: nat
  newlyProcessed :: nat
  lastUpdated :: int
  cleanupPerformed :: bool

record wfState =
  st_data :: "sftpEntry list"
  st_fileTracking :: "trackingInfo obj option"
  st_newFilesFound :: bool
  st_newFiles :: "fileInfo list"
  st_currentFileList :: "fileInfo obj option"
  st_lastChecked :: "int option"
  st_workflowComplete :: bool
  st_uploadCompleted :: bool
  st_processedFiles :: "processedFile list option"
  st_uploadSummary :: "uploadSummary option"
  st_trackingSummary :: "trackingSummary option"
  st_workflowCompleted :: bool
  st_completedAt :: "int option"

subsection \<open>check-sftp-files\<close>

definition SFTP_DIRECTORY :: string where
  "SFTP_DIRECTORY = ''/uploads/hiv-indicators/''"

definition SUPPORTED_EXTENSIONS :: "string list" where
  "SUPPORTED_EXTENSIONS = [''.xlsx'', ''.xls'']"

text \<open>\<open>s.lastIndexOf(c)\<close> is -1 when \<open>c\<close> does not occur; \<open>s.substring(start)\<close>
  takes a negative start as 0 and a start beyond the end as the end.\<close>

definition lastIndexOf :: "string \<Rightarrow> char \<Rightarrow> int" where
  "lastIndexOf s c =
     (if c \<in> set s then int (length s - 1 - length (takeWhile (\<lambda>x. x \<noteq> c) (rev s)))
      else - 1)"

definition substringFrom :: "string \<Rightarrow> int \<Rightarrow> string" where
  "substringFrom s start = drop (nat start) s"

definition extensionOf :: "string \<Rightarrow> string" where
  "extensionOf name = substringFrom (toLowerCase name) (lastIndexOf name (CHR ''.''))"

definition fileInfoOf :: "sftpEntry \<Rightarrow> fileInfo" where
  "fileInfoOf file =
     \<lparr>fi_name = e_name file, fi_size = e_size file, fi_modifiedTime = e_modifiedTime file,
      fi_path = SFTP_DIRECTORY @ e_name file\<rparr>"

text \<open>The condition of lines 41-43 on the stored record of a file.\<close>

definition newOrModified :: "trackingInfo obj \<Rightarrow> fileInfo \<Rightarrow> bool" where
  "newOrModified previousFiles info =
     (case objGet previousFiles (fi_name info) of
        None \<Rightarrow> True
      | Some previousFile \<Rightarrow>
          t_modifiedTime previousFile \<noteq> fi_modifiedTime info
          \<or> t_size previousFile \<noteq> fi_size info)"

text \<open>One round of the loop over \<open>state.data\<close> (lines 23-51), on
  \<open>currentFiles\<close>, \<open>newFiles\<close> and \<open>newFilesFound\<close>.\<close>

definition checkFile ::
  "trackingInfo obj \<Rightarrow> fileInfo obj \<times> fileInfo list \<times> bool \<Rightarrow> sftpEntry
     \<Rightarrow> fileInfo obj \<times> fileInfo list \<times> bool" where
  "checkFile previousFiles acc file =
     (case acc of (currentFiles, newFiles, newFilesFound) \<Rightarrow>
        if e_type file = ''file'' then
          if extensionOf (e_name file) \<in> set SUPPORTED_EXTENSIONS then
            (let fileKey = e_name file;
                 info = fileInfoOf file;
                 currentFiles' = objSet fileKey info currentFiles
             in if newOrModified previousFiles info
                then (currentFiles', newFiles @ [info], True)
                else (currentFiles', newFiles, newFilesFound))
          else acc
        else acc)"

definition checkSftpFiles :: "int \<Rightarrow> wfState \<Rightarrow> wfState" where
  "checkSftpFiles clock state =
     (let previousFiles = (case st_fileTracking state of None \<Rightarrow> [] | Some t \<Rightarrow> t)
      in case foldl (checkFile previousFiles) ([], [], False) (st_data state) of
           (currentFiles, newFiles, newFilesFound) \<Rightarrow>
             state\<lparr>st_newFilesFound := newFilesFound,
                   st_newFiles := newFiles,
                   st_currentFileList := Some currentFiles,
                   st_lastChecked := Some clock\<rparr>)"

definition stopIfNoNewFiles :: "wfState \<Rightarrow> wfState" where
  "stopIfNoNewFiles state =
     (if \<not> st_newFilesFound state then state\<lparr>st_workflowComplete := True\<rparr> else state)"

subsection \<open>update-file-tracking\<close>

definition trackProcessed ::
  "int \<Rightarrow> uploadSummary option \<Rightarrow> trackingInfo obj \<Rightarrow> processedFile \<Rightarrow> trackingInfo obj" where
  "trackProcessed clock summary newFileTracking file =
     (let count = (\<lambda>field. case summary of
                      None \<Rightarrow> 0
                    | Some u \<Rightarrow> (case field u of None \<Rightarrow> 0 | Some n \<Rightarrow> n));
          trackingInfo =
            \<lparr>t_name = pf_name file,
             t_size = pf_size file,
             t_modifiedTime = pf_modifiedTime file,
             t_path = pf_path file,
             t_processedAt = Some clock,
             t_lastChecked = None,
             t_status = ''processed'',
             t_uploadStatus =
               Some (case summary of
                       None \<Rightarrow> ''unknown''
                     | Some u \<Rightarrow>
                         (case us_status u of
                            None \<Rightarrow> ''unknown''
                          | Some s \<Rightarrow> if s \<noteq> [] then s else ''unknown'')),
             t_dhis2Summary = Some (count us_imported, count us_updated, count us_ignored)\<rparr>
      in objSet (pf_name file) trackingInfo newFileTracking)"

definition trackChecked :: "int \<Rightarrow> trackingInfo obj \<Rightarrow> string \<times> fileInfo \<Rightarrow> trackingInfo obj" where
  "trackChecked clock newFileTracking entry =
     (case entry of (fileKey, info) \<Rightarrow>
        if objGet newFileTracking fileKey = None then
          objSet fileKey
            \<lparr>t_name = fi_name info,
             t_size = fi_size info,
             t_modifiedTime = fi_modifiedTime info,
             t_path = fi_path info,
             t_processedAt = None,
             t_lastChecked = Some clock,
             t_status = ''checked'',
             t_uploadStatus = None,
             t_dhis2Summary = None\<rparr>
            newFileTracking
        else newFileTracking)"

text \<open>\<open>new Date(fileInfo.processedAt || fileInfo.lastChecked || 0)\<close>, and the instant
  thirty days before the clock's.\<close>

definition fileDate :: "trackingInfo \<Rightarrow> int" where
  "fileDate info =
     (case t_processedAt info of
        Some t \<Rightarrow> t
      | None \<Rightarrow> (case t_lastChecked info of Some t \<Rightarrow> t | None \<Rightarrow> 0))"

definition thirtyDaysAgo :: "int \<Rightarrow> int" where
  "thirtyDaysAgo clock = clock - 30 * 24 * 60 * 60 * 1000"

definition cleanUp :: "int \<Rightarrow> trackingInfo obj \<Rightarrow> trackingInfo obj" where
  "cleanUp clock newFileTracking =
     foldl (\<lambda>tracking fileKey.
              case objGet tracking fileKey of
                None \<Rightarrow> tracking
              | Some info \<Rightarrow>
                  if fileDate info < thirtyDaysAgo clock then objDelete fileKey tracking
                  else tracking)
           newFileTracking (Object_keys newFileTracking)"

definition updateFileTracking :: "int \<Rightarrow> wfState \<Rightarrow> wfState" where
  "updateFileTracking clock state =
     (if \<not> st_uploadCompleted state then state
      else
        (let currentFileTracking = (case st_fileTracking state of None \<Rightarrow> [] | Some t \<Rightarrow> t);
             processed =
               (case st_processedFiles state of
                  None \<Rightarrow> currentFileTracking
                | Some files \<Rightarrow>
                    foldl (trackProcessed clock (st_uploadSummary state)) currentFileTracking files);
             checked =
               (case st_currentFileList state of
                  None \<Rightarrow> processed
                | Some current \<Rightarrow> foldl (trackChecked clock) processed (Object_entries current));
             newFileTracking = cleanUp clock checked;
             summary =
               \<lparr>totalTrackedFiles = length (Object_keys newFileTracking),
                newlyProcessed = (case st_processedFiles state of None \<Rightarrow> 0 | Some files \<Rightarrow> length files),
                lastUpdated = clock,
                cleanupPerformed = True\<rparr>
         in state\<lparr>st_fileTracking := Some newFileTracking,
                  st_trackingSummary := Some summary,
                  st_workflowCompleted := True,
                  st_completedAt := Some clock\<rparr>))"

section \<open>The spreadsheet normalizer\<close>

text \<open>
  \<open>parseExcelData\<close> and its helpers, of
  reports-data-upload-workflow/jobs/process-excel-data.js. The spreadsheet library and
  the file system are outside the repository. A sheet is given by what
  \<open>XLSX.utils.sheet_to_json\<close> returns for it: the rows as objects keyed by the header
  texts (the default), and the rows as arrays of cells (with \<open>header: 1\<close>). Reading
  the file either finds no file, fails with the library's message, or gives a workbook.
  Besides \<open>strToNum\<close>, the text of a number (\<open>toString\<close> and template literals) is
  the parameter \<open>numToStr\<close>. An object is the list of its properties.
\<close>

type_synonym jsobj = "(string \<times> jsval) list"

definition getProp :: "jsobj \<Rightarrow> string \<Rightarrow> jsval" where
  "getProp ob k = (case map_of ob k of None \<Rightarrow> Undefined | Some v \<Rightarrow> v)"

definition cell :: "jsval list \<Rightarrow> nat option \<Rightarrow> jsval" where
  "cell row i = (case i of None \<Rightarrow> Undefined
                 | Some n \<Rightarrow> if n < length row then row ! n else Undefined)"

definition toStr :: "(rat \<Rightarrow> string) \<Rightarrow> jsval \<Rightarrow> string" where
  "toStr numToStr v =
     (case v of Str s \<Rightarrow> s | Num r \<Rightarrow> numToStr r | NaN \<Rightarrow> ''NaN''
      | Null \<Rightarrow> ''null'' | Undefined \<Rightarrow> ''undefined'')"

definition numberOrNaN :: "rat option \<Rightarrow> jsval" where
  "numberOrNaN r = (case r of None \<Rightarrow> NaN | Some x \<Rightarrow> Num x)"

text \<open>\<open>parseFloat(v) || null\<close>.\<close>

definition numberOrNull :: "(string \<Rightarrow> rat option) \<Rightarrow> jsval \<Rightarrow> jsval" where
  "numberOrNull strToNum v =
     (case parseFloat strToNum v of None \<Rightarrow> Null | Some r \<Rightarrow> if r = 0 then Null else Num r)"

record sheet =
  asObjects :: "jsobj list"
  asArrays :: "jsval list list"

record workbook =
  SheetNames :: "string list"
  Sheets :: "(string \<times> sheet) list"

datatype fileRead = NotFound | Unreadable string | Readable workbook

record validation =
  isValid :: bool
  warnings :: "string list"
  errors :: "string list"

record genericSheet =
  gs_sheetName :: string
  gs_data :: "jsobj list"
  gs_rowCount :: nat

record parsedData =
  pd_type :: "string option"
  pd_indicators :: "jsobj list option"
  pd_queries :: "jsobj list option"
  pd_sites :: "jsobj list option"
  pd_sheets :: "genericSheet list option"
  pd_totalRows :: "nat option"

record parsedFile =
  px_type :: string
  px_fileName :: string
  px_sheetNames :: "string list"
  px_data :: parsedData
  px_validation :: validation

record headerMap =
  hm_site :: "nat option"
  hm_indicator :: "nat option"
  hm_value :: "nat option"
  hm_period :: "nat option"
  hm_orgUnit :: "nat option"
  hm_target :: "nat option"
  hm_comment :: "nat option"
  hm_score :: "nat option"
  hm_completeness :: "nat option"
  hm_timeliness :: "nat option"

definition emptyParsedData :: parsedData where
  "emptyParsedData =
     \<lparr>pd_type = None, pd_indicators = None, pd_queries = None, pd_sites = None,
      pd_sheets = None, pd_totalRows = None\<rparr>"

definition emptyHeaderMap :: headerMap where
  "emptyHeaderMap =
     \<lparr>hm_site = None, hm_indicator = None, hm_value = None, hm_period = None,
      hm_orgUnit = None, hm_target = None, hm_comment = None, hm_score = None,
      hm_completeness = None, hm_timeliness = None\<rparr>"

text \<open>The first sheet of the workbook as the library hands it over; a missing sheet
  converts to no rows.\<close>

definition firstSheet :: "workbook \<Rightarrow> sheet" where
  "firstSheet wb =
     (case SheetNames wb of
        [] \<Rightarrow> \<lparr>asObjects = [], asArrays = []\<rparr>
      | sheetName # _ \<Rightarrow>
          (case map_of (Sheets wb) sheetName of
             None \<Rightarrow> \<lparr>asObjects = [], asArrays = []\<rparr>
           | Some sh \<Rightarrow> sh))"

subsection \<open>The regular expressions\<close>

text \<open>
  All tests are case-insensitive and made of plain words, alternatives and
  \<open>.*\<close> (any run of characters without a line break).
\<close>

definition endsWith :: "string \<Rightarrow> string \<Rightarrow> bool" where
  "endsWith s t = startsWith (rev s) (rev t)"

definition isLineBreak :: "char \<Rightarrow> bool" where
  "isLineBreak c = (let n = of_char c :: nat in n = 10 \<or> n = 13)"

text \<open>\<open>/word1|word2|.../i.test(s)\<close>\<close>

definition testAny :: "string list \<Rightarrow> string \<Rightarrow> bool" where
  "testAny ws s = list_ex (\<lambda>w. includesStr (toLowerCase s) w) ws"

text \<open>\<open>/pre.*suf/i.test(s)\<close>: \<open>pre\<close> occurs and \<open>suf\<close> follows on the same line.\<close>

fun followedBy :: "string \<Rightarrow> string \<Rightarrow> string \<Rightarrow> bool" where
  "followedBy pre suf [] = (pre = [] \<and> suf = [])"
| "followedBy pre suf (c # s) =
     ((startsWith (c # s) pre
         \<and> includesStr (takeWhile (\<lambda>x. \<not> isLineBreak x) (drop (length pre) (c # s))) suf)
      \<or> followedBy pre suf s)"

definition testDotStar :: "string \<Rightarrow> string \<Rightarrow> string \<Rightarrow> bool" where
  "testDotStar pre suf s = followedBy pre suf (toLowerCase s)"

text \<open>\<open>/^(word1|word2|...)$/i.test(s)\<close> and \<open>/^(pre.*suf)$/i.test(s)\<close>\<close>

definition isAny :: "string list \<Rightarrow> string \<Rightarrow> bool" where
  "isAny ws s = (toLowerCase s \<in> set ws)"

definition isDotStar :: "string \<Rightarrow> string \<Rightarrow> string \<Rightarrow> bool" where
  "isDotStar pre suf s =
     (let l = toLowerCase s in
      length pre + length suf \<le> length l \<and> startsWith l pre \<and> endsWith l suf
      \<and> list_all (\<lambda>x. \<not> isLineBreak x)
           (take (length l - length pre - length suf) (drop (length pre) l)))"

subsection \<open>parseHIVIndicators\<close>

definition hivIndicatorOf :: "(string \<Rightarrow> rat option) \<Rightarrow> jsobj \<Rightarrow> nat \<Rightarrow> jsobj" where
  "hivIndicatorOf strToNum row index =
     [(''indicator'',
         orElse (getProp row ''Indicator'')
           (orElse (getProp row ''indicator'') (Str (''Row_'' @ natToString (index + 1))))),
      (''value'',
         numberOrNaN (parseFloat strToNum
           (orElse (getProp row ''Value'') (orElse (getProp row ''value'') (Num 0))))),
      (''period'',
         orElse (getProp row ''Period'') (orElse (getProp row ''period'') (Str ''202506''))),
      (''orgUnit'',
         orElse (getProp row ''OrgUnit'')
           (orElse (getProp row ''orgUnit'') (orElse (getProp row ''Facility'') (Str ''MW_DEFAULT'')))),
      (''target'', numberOrNull strToNum (orElse (getProp row ''Target'') (getProp row ''target''))),
      (''comment'', orElse (getProp row ''Comment'') (orElse (getProp row ''comment'') Null)),
      (''dataElement'',
         orElse (getProp row ''DataElement'') (orElse (getProp row ''dataElement'') Null)),
      (''rowIndex'', Num (of_nat (index + 1)))]"

definition parseHIVIndicators :: "(string \<Rightarrow> rat option) \<Rightarrow> workbook \<Rightarrow> parsedData" where
  "parseHIVIndicators strToNum wb =
     (let jsonData = asObjects (firstSheet wb)
      in emptyParsedData
           \<lparr>pd_indicators :=
              Some (map (\<lambda>(row, index). hivIndicatorOf strToNum row index)
                        (zip jsonData [0..<length jsonData]))\<rparr>)"

subsection \<open>parseDirectQueries\<close>

definition generateOrgUnit :: "(rat \<Rightarrow> string) \<Rightarrow> jsval \<Rightarrow> string" where
  "generateOrgUnit numToStr siteName =
     (if \<not> truthy siteName then ''MW_DEFAULT''
      else
        (let alnum = (\<lambda>c. let n = of_char c :: nat in
                          (48 \<le> n \<and> n \<le> 57) \<or> (65 \<le> n \<and> n \<le> 90) \<or> (97 \<le> n \<and> n \<le> 122));
             upper = (\<lambda>c. let n = of_char c :: nat in
                          if 97 \<le> n \<and> n \<le> 122 then char_of (n - 32) else c);
             cleanName = map upper (map (\<lambda>c. if alnum c then c else CHR ''_'')
                                        (toStr numToStr siteName))
         in ''MW_'' @ take 10 cleanName))"

definition hasCommonHeaders :: "jsval list \<Rightarrow> bool" where
  "hasCommonHeaders row =
     list_ex (\<lambda>c. case c of
                Str s \<Rightarrow>
                  s \<noteq> []
                  \<and> (testAny [''facility'', ''site'', ''query'', ''indicator'', ''value'',
                              ''result'', ''count'', ''total''] s
                     \<or> testAny [''period'', ''month'', ''quarter'', ''year'', ''date''] s
                     \<or> testAny [''org'', ''unit'', ''district'', ''region''] s)
              | _ \<Rightarrow> False) row"

text \<open>The search of lines 126-141 and 233-248: the first of the first ten rows that
  passes the test, row 0 when none does.\<close>

definition findHeaderRow :: "(jsval list \<Rightarrow> bool) \<Rightarrow> jsval list list \<Rightarrow> nat" where
  "findHeaderRow test rawData =
     (case List.find (\<lambda>i. test (rawData ! i)) [0..<min 10 (length rawData)] of
        None \<Rightarrow> 0
      | Some i \<Rightarrow> i)"

text \<open>\<open>!headerMap.field\<close> holds when the field is not set or is column 0.\<close>

definition unset :: "nat option \<Rightarrow> bool" where
  "unset f = (case f of None \<Rightarrow> True | Some n \<Rightarrow> n = 0)"

definition mapQueryHeader :: "(rat \<Rightarrow> string) \<Rightarrow> headerMap \<Rightarrow> jsval \<times> nat \<Rightarrow> headerMap" where
  "mapQueryHeader numToStr hm hi =
     (case hi of (header, index) \<Rightarrow>
        if \<not> truthy header then hm
        else
          (let headerStr = trim (toLowerCase (toStr numToStr header));
               hm1 =
                 (if isAny [''site'', ''facility'', ''clinic'', ''hospital''] headerStr
                     \<or> isDotStar ''health'' ''facility'' headerStr
                  then hm\<lparr>hm_site := Some index\<rparr>
                  else if isAny [''query'', ''indicator'', ''measure'', ''metric''] headerStr
                     \<or> isDotStar ''data'' ''element'' headerStr
                  then hm\<lparr>hm_indicator := Some index\<rparr>
                  else if isAny [''value'', ''result'', ''count'', ''total'', ''number'', ''amount'']
                            headerStr
                  then hm\<lparr>hm_value := Some index\<rparr>
                  else if isAny [''period'', ''month'', ''quarter'', ''year'', ''date'', ''time'']
                            headerStr
                  then hm\<lparr>hm_period := Some index\<rparr>
                  else if isAny [''district'', ''region'', ''area''] headerStr
                     \<or> isDotStar ''org'' ''unit'' headerStr
                  then hm\<lparr>hm_orgUnit := Some index\<rparr>
                  else if isAny [''target'', ''goal'', ''expected''] headerStr
                  then hm\<lparr>hm_target := Some index\<rparr>
                  else if isAny [''comment'', ''note'', ''remark'', ''description''] headerStr
                  then hm\<lparr>hm_comment := Some index\<rparr>
                  else hm);
               hm2 = (if unset (hm_site hm1) \<and> testAny [''facility'', ''site'', ''clinic''] headerStr
                      then hm1\<lparr>hm_site := Some index\<rparr> else hm1);
               hm3 = (if unset (hm_indicator hm2)
                         \<and> testAny [''indicator'', ''query'', ''measure''] headerStr
                      then hm2\<lparr>hm_indicator := Some index\<rparr> else hm2)
           in if unset (hm_value hm3)
                 \<and> testAny [''value'', ''count'', ''total'', ''result''] headerStr
              then hm3\<lparr>hm_value := Some index\<rparr> else hm3))"

definition queryOf ::
  "(string \<Rightarrow> rat option) \<Rightarrow> (rat \<Rightarrow> string) \<Rightarrow> headerMap \<Rightarrow> jsval list \<Rightarrow> nat
     \<Rightarrow> jsobj option" where
  "queryOf strToNum numToStr hm row index =
     (if length row = 0 then None
      else
        (let site = orElse (cell row (hm_site hm))
                      (orElse (cell row (Some 0)) (Str (''Site_'' @ natToString (index + 1))));
             indicator = orElse (cell row (hm_indicator hm))
                      (orElse (cell row (Some 1)) (Str (''Query_'' @ natToString (index + 1))));
             val = parseFloat strToNum
                     (orElse (cell row (hm_value hm)) (orElse (cell row (Some 2)) (Num 0)))
         in if \<not> truthy site \<or> trim (toStr numToStr site) = []
               \<or> \<not> truthy indicator \<or> trim (toStr numToStr indicator) = []
            then None
            else Some
              [(''site'', Str (trim (toStr numToStr site))),
               (''indicator'', Str (trim (toStr numToStr indicator))),
               (''value'', Num (case val of None \<Rightarrow> 0 | Some r \<Rightarrow> r)),
               (''period'', orElse (cell row (hm_period hm)) (Str ''2025Q1'')),
               (''orgUnit'',
                  orElse (cell row (hm_orgUnit hm)) (Str (generateOrgUnit numToStr site))),
               (''target'', numberOrNull strToNum (cell row (hm_target hm))),
               (''comment'', orElse (cell row (hm_comment hm)) Null),
               (''rowIndex'', Num (of_nat (index + 1)))]))"

definition parseDirectQueries ::
  "(string \<Rightarrow> rat option) \<Rightarrow> (rat \<Rightarrow> string) \<Rightarrow> workbook \<Rightarrow> parsedData" where
  "parseDirectQueries strToNum numToStr wb =
     (let rawData = asArrays (firstSheet wb)
      in if length rawData = 0 then emptyParsedData\<lparr>pd_queries := Some []\<rparr>
         else
           (let headerRowIndex = findHeaderRow hasCommonHeaders rawData;
                headers = rawData ! headerRowIndex;
                dataRows = drop (headerRowIndex + 1) rawData;
                hm = foldl (mapQueryHeader numToStr) emptyHeaderMap
                       (zip headers [0..<length headers])
            in emptyParsedData
                 \<lparr>pd_queries :=
                    Some (List.map_filter (\<lambda>(row, index). queryOf strToNum numToStr hm row index)
                            (zip dataRows [0..<length dataRows]))\<rparr>))"

subsection \<open>parseDQSites\<close>

definition hasDataQualityHeaders :: "jsval list \<Rightarrow> bool" where
  "hasDataQualityHeaders row =
     list_ex (\<lambda>c. case c of
                Str s \<Rightarrow>
                  s \<noteq> []
                  \<and> (testAny [''site'', ''facility'', ''clinic''] s
                     \<or> testAny [''quality'', ''score'', ''completeness'', ''timeliness''] s
                     \<or> testAny [''dq''] s \<or> testDotStar ''data'' ''quality'' s)
              | _ \<Rightarrow> False) row"

definition mapSiteHeader :: "(rat \<Rightarrow> string) \<Rightarrow> headerMap \<Rightarrow> jsval \<times> nat \<Rightarrow> headerMap" where
  "mapSiteHeader numToStr hm hi =
     (case hi of (header, index) \<Rightarrow>
        if \<not> truthy header then hm
        else
          (let headerStr = trim (toLowerCase (toStr numToStr header));
               hm1 =
                 (if isAny [''site'', ''facility'', ''clinic'', ''hospital'', ''hf''] headerStr
                     \<or> isDotStar ''health'' ''facility'' headerStr
                  then hm\<lparr>hm_site := Some index\<rparr>
                  else if isAny [''score''] headerStr
                     \<or> isDotStar ''quality'' ''score'' headerStr
                     \<or> isDotStar ''dq'' ''score'' headerStr
                     \<or> isDotStar ''overall'' ''score'' headerStr
                  then hm\<lparr>hm_score := Some index\<rparr>
                  else if isAny [''completeness'', ''complete''] headerStr
                     \<or> isDotStar ''data'' ''complete'' headerStr
                  then hm\<lparr>hm_completeness := Some index\<rparr>
                  else if isAny [''timeliness'', ''timely''] headerStr
                     \<or> isDotStar ''on'' ''time'' headerStr
                  then hm\<lparr>hm_timeliness := Some index\<rparr>
                  else if isAny [''period'', ''month'', ''quarter'', ''year'', ''date''] headerStr
                  then hm\<lparr>hm_period := Some index\<rparr>
                  else if isAny [''district'', ''region'', ''area''] headerStr
                     \<or> isDotStar ''org'' ''unit'' headerStr
                  then hm\<lparr>hm_orgUnit := Some index\<rparr>
                  else if isAny [''indicator'', ''measure'', ''metric''] headerStr
                  then hm\<lparr>hm_indicator := Some index\<rparr>
                  else hm);
               hm2 = (if unset (hm_site hm1)
                         \<and> testAny [''facility'', ''site'', ''clinic'', ''hf''] headerStr
                      then hm1\<lparr>hm_site := Some index\<rparr> else hm1)
           in if unset (hm_score hm2) \<and> testAny [''score'', ''quality'', ''dq''] headerStr
              then hm2\<lparr>hm_score := Some index\<rparr> else hm2))"

text \<open>Lines 302-324: the number and the name of the metric of a row.\<close>

definition siteMetric ::
  "(string \<Rightarrow> rat option) \<Rightarrow> headerMap \<Rightarrow> jsval list \<Rightarrow> jsval list \<Rightarrow> rat \<times> jsval" where
  "siteMetric strToNum hm headers row =
     (if hm_score hm \<noteq> None \<and> cell row (hm_score hm) \<noteq> Undefined then
        (numberOrZero strToNum (cell row (hm_score hm)), Str ''Data Quality Score'')
      else if hm_completeness hm \<noteq> None \<and> cell row (hm_completeness hm) \<noteq> Undefined then
        (numberOrZero strToNum (cell row (hm_completeness hm)), Str ''Completeness Rate'')
      else if hm_timeliness hm \<noteq> None \<and> cell row (hm_timeliness hm) \<noteq> Undefined then
        (numberOrZero strToNum (cell row (hm_timeliness hm)), Str ''Timeliness Score'')
      else
        (case List.find (\<lambda>i. parseFloat strToNum (row ! i) \<noteq> None) [1..<length row] of
           None \<Rightarrow> (0, Str ''Data Quality Score'')
         | Some i \<Rightarrow>
             (numberOrZero strToNum (row ! i),
              orElse (cell headers (Some i)) (Str (''Metric_'' @ natToString i)))))"

definition siteOf ::
  "(string \<Rightarrow> rat option) \<Rightarrow> (rat \<Rightarrow> string) \<Rightarrow> headerMap \<Rightarrow> jsval list \<Rightarrow> jsval list
     \<Rightarrow> nat \<Rightarrow> jsobj option" where
  "siteOf strToNum numToStr hm headers row index =
     (if length row = 0 then None
      else
        (let site = orElse (cell row (hm_site hm))
                      (orElse (cell row (Some 0)) (Str (''Site_'' @ natToString (index + 1))))
         in if \<not> truthy site \<or> trim (toStr numToStr site) = [] then None
            else
              (case siteMetric strToNum hm headers row of (val, indicator) \<Rightarrow>
                 Some
                   [(''site'', Str (trim (toStr numToStr site))),
                    (''indicator'', indicator),
                    (''value'', Num val),
                    (''period'', orElse (cell row (hm_period hm)) (Str ''2025Q2'')),
                    (''orgUnit'',
                       orElse (cell row (hm_orgUnit hm)) (Str (generateOrgUnit numToStr site))),
                    (''score'', numberOrNull strToNum (cell row (hm_score hm))),
                    (''completeness'', numberOrNull strToNum (cell row (hm_completeness hm))),
                    (''timeliness'', numberOrNull strToNum (cell row (hm_timeliness hm))),
                    (''rowIndex'', Num (of_nat (index + 1)))])))"

definition parseDQSites ::
  "(string \<Rightarrow> rat option) \<Rightarrow> (rat \<Rightarrow> string) \<Rightarrow> workbook \<Rightarrow> parsedData" where
  "parseDQSites strToNum numToStr wb =
     (let rawData = asArrays (firstSheet wb)
      in if length rawData = 0 then emptyParsedData\<lparr>pd_sites := Some []\<rparr>
         else
           (let headerRowIndex = findHeaderRow hasDataQualityHeaders rawData;
                headers = rawData ! headerRowIndex;
                dataRows = drop (headerRowIndex + 1) rawData;
                hm = foldl (mapSiteHeader numToStr) emptyHeaderMap
                       (zip headers [0..<length headers])
            in emptyParsedData
                 \<lparr>pd_sites :=
                    Some (List.map_filter
                            (\<lambda>(row, index). siteOf strToNum numToStr hm headers row index)
                            (zip dataRows [0..<length dataRows]))\<rparr>))"

subsection \<open>parseGenericExcel\<close>

definition parseGenericExcel :: "workbook \<Rightarrow> parsedData" where
  "parseGenericExcel wb =
     (let allData =
            map (\<lambda>sheetName.
                   let jsonData = (case map_of (Sheets wb) sheetName of
                                     None \<Rightarrow> [] | Some sh \<Rightarrow> asObjects sh)
                   in \<lparr>gs_sheetName = sheetName, gs_data = jsonData,
                       gs_rowCount = length jsonData\<rparr>)
                (SheetNames wb)
      in emptyParsedData
           \<lparr>pd_type := Some ''generic'',
            pd_sheets := Some allData,
            pd_totalRows := Some (foldl (\<lambda>sum sh. sum + gs_rowCount sh) 0 allData)\<rparr>)"

subsection \<open>validateExcelData\<close>

definition validationSchemas :: "string \<Rightarrow> string list option" where
  "validationSchemas dataType =
     (if dataType = ''hiv_indicators'' then Some [''indicator'', ''value'', ''period'', ''orgUnit'']
      else if dataType = ''direct_queries'' then Some [''site'', ''indicator'', ''value'', ''period'']
      else if dataType = ''dq_sites'' then Some [''site'', ''indicator'', ''value'', ''period'']
      else None)"

text \<open>The warnings of one item (lines 400-409).\<close>

definition itemWarnings ::
  "(string \<Rightarrow> rat option) \<Rightarrow> (rat \<Rightarrow> string) \<Rightarrow> string list \<Rightarrow> jsobj \<Rightarrow> nat \<Rightarrow> string list" where
  "itemWarnings strToNum numToStr requiredColumns item index =
     map (\<lambda>column. ''Missing required field '' @ [CHR 0x27] @ column @ [CHR 0x27] @ '' in row ''
                     @ natToString (index + 1))
         (filter (\<lambda>column. \<not> truthy (getProp item column) \<and> getProp item column \<noteq> Num 0)
                 requiredColumns)
     @ (if truthy (getProp item ''value'')
           \<and> parseFloat strToNum (getProp item ''value'') = None
        then [''Invalid numeric value '' @ [CHR 0x27] @ toStr numToStr (getProp item ''value'')
                @ [CHR 0x27] @ '' in row '' @ natToString (index + 1)]
        else [])"

definition validateExcelData ::
  "(string \<Rightarrow> rat option) \<Rightarrow> (rat \<Rightarrow> string) \<Rightarrow> parsedData \<Rightarrow> string \<Rightarrow> validation" where
  "validateExcelData strToNum numToStr data dataType =
     (case validationSchemas dataType of
        None \<Rightarrow>
          \<lparr>isValid = True,
           warnings = [''No validation schema for data type: '' @ dataType],
           errors = []\<rparr>
      | Some requiredColumns \<Rightarrow>
          (let dataArray =
                 (case pd_indicators data of
                    Some a \<Rightarrow> a
                  | None \<Rightarrow>
                      (case pd_queries data of
                         Some a \<Rightarrow> a
                       | None \<Rightarrow> (case pd_sites data of Some a \<Rightarrow> a | None \<Rightarrow> [])))
           in \<lparr>isValid = (length dataArray \<noteq> 0),
               warnings =
                 concat (map (\<lambda>(item, index).
                                itemWarnings strToNum numToStr requiredColumns item index)
                             (zip dataArray [0..<length dataArray])),
               errors = (if length dataArray = 0 then [''No data found in Excel file''] else [])\<rparr>))"

subsection \<open>parseExcelData\<close>

text \<open>
  The result is the error message of the exception thrown (\<open>Inl\<close>) or the parsed file.
  In the result, the \<open>type\<close> of the parsed data, when it has one, overrides the data type
  chosen from the file name, as the spread in the object literal does.
\<close>

definition parseExcelData ::
  "(string \<Rightarrow> rat option) \<Rightarrow> (rat \<Rightarrow> string) \<Rightarrow> fileRead \<Rightarrow> string \<Rightarrow> string
     \<Rightarrow> string + parsedFile" where
  "parseExcelData strToNum numToStr file filePath fileName =
     (case file of
        NotFound \<Rightarrow>
          Inl (''Failed to parse Excel file '' @ fileName @ '': File not found: '' @ filePath)
      | Unreadable message \<Rightarrow>
          Inl (''Failed to parse Excel file '' @ fileName @ '': '' @ message)
      | Readable wb \<Rightarrow>
          (case (if includesStr fileName ''DHIS2_HIV Indicators''
                 then (''hiv_indicators'', parseHIVIndicators strToNum wb)
                 else if includesStr fileName ''Direct Queries''
                 then (''direct_queries'', parseDirectQueries strToNum numToStr wb)
                 else if includesStr fileName ''Q2FY25_DQ''
                 then (''dq_sites'', parseDQSites strToNum numToStr wb)
                 else (''unknown'', parseGenericExcel wb)) of
             (dataType, parsed) \<Rightarrow>
               Inr \<lparr>px_type = (case pd_type parsed of None \<Rightarrow> dataType | Some t \<Rightarrow> t),
                    px_fileName = fileName,
                    px_sheetNames = SheetNames wb,
                    px_data = parsed,
                    px_validation = validateExcelData strToNum numToStr parsed dataType\<rparr>))"

section \<open>Notions used to state the properties\<close>





text \<open>
  No observed key matches a vocabulary key: none equals it, none equals it when case is
  ignored, none contains it or is contained in it when case is ignored, and none scores
  above one half against it.
\<close>

definition noObservedMatch :: "rat obj \<Rightarrow> string \<Rightarrow> bool" where
  "noObservedMatch indicatorValues indicatorKey =
     (\<forall>key \<in> set (Object_keys indicatorValues).
        key \<noteq> indicatorKey
        \<and> toLowerCase key \<noteq> toLowerCase indicatorKey
        \<and> \<not> sublist (toLowerCase indicatorKey) (toLowerCase key)
        \<and> \<not> sublist (toLowerCase key) (toLowerCase indicatorKey)
        \<and> normalizedScore indicatorKey key \<le> 1 / 2)"

text \<open>
  The records of the input as the index of the reports workflow takes them up: the
  pairs of index key and number that the rows assign, in the order of the input. A row
  that the guard skips assigns nothing.
\<close>

definition rawFileEntries :: "(string \<Rightarrow> rat option) \<Rightarrow> rawFile \<Rightarrow> (string \<times> rat) list" where
  "rawFileEntries strToNum file =
     (case rf_indicators file of
        None \<Rightarrow> []
      | Some indicators \<Rightarrow>
          List.map_filter (rawIndicatorEntry strToNum (rf_fileName file)) indicators)
     @ (case rf_queries file of
          None \<Rightarrow> []
        | Some queries \<Rightarrow> List.map_filter (rawQueryEntry strToNum) queries)
     @ (case rf_sites file of
          None \<Rightarrow> []
        | Some sites \<Rightarrow> List.map_filter (rawQueryEntry strToNum) sites)"

definition storedEntries :: "(string \<Rightarrow> rat option) \<Rightarrow> inputData option \<Rightarrow> (string \<times> rat) list" where
  "storedEntries strToNum inputData =
     (case inputData of
        None \<Rightarrow> []
      | Some d \<Rightarrow>
          if in_source d = Some ''sftp_excel'' then
            (case in_sheets d of
               None \<Rightarrow> []
             | Some sheets \<Rightarrow>
                 concat (map (\<lambda>(sheetType, rows). List.map_filter (sftpRowEntry strToNum) rows)
                             sheets))
          else case in_processedData d of
            Some rows \<Rightarrow> List.map_filter (sheetsRowEntry strToNum) rows
          | None \<Rightarrow>
              (case in_processedFiles d of
                 Some files \<Rightarrow> concat (map (rawFileEntries strToNum) files)
               | None \<Rightarrow> []))"






text \<open>
  What a run gave for the \<open>i\<close>-th vocabulary key: the match type and the value of the
  \<open>i\<close>-th entry of \<open>dataValues\<close>, when the run returned a payload.
\<close>

definition entryAt :: "jsError + 'a payload_scheme \<Rightarrow> nat \<Rightarrow> (string \<times> rat) option" where
  "entryAt result i =
     (case result of
        Inl e \<Rightarrow> None
      | Inr p \<Rightarrow>
          if i < length (dataValues p)
          then Some (matchType (dataValues p ! i), dv_value (dataValues p ! i))
          else None)"

text \<open>A listing entry that the check job looks at: a file with a supported extension.\<close>

definition supportedFile :: "sftpEntry \<Rightarrow> bool" where
  "supportedFile file =
     (e_type file = ''file'' \<and> extensionOf (e_name file) \<in> set SUPPORTED_EXTENSIONS)"

text \<open>A workbook without data rows: the first sheet converts to no objects and has at
  most a header row, and every sheet named in the workbook converts to no objects.\<close>

definition noDataRows :: "workbook \<Rightarrow> bool" where
  "noDataRows wb =
     (asObjects (firstSheet wb) = [] \<and> length (asArrays (firstSheet wb)) \<le> 1
      \<and> (\<forall>sh \<in> snd ` set (Sheets wb). asObjects sh = []))"

text \<open>Values for the examples.\<close>

definition blankRow :: sheetRow where
  "blankRow =
     \<lparr>row_Indicator = None, row_Indicator_Name = None, row_indicator = None,
      row_Value = Undefined, row_Count = Undefined, row_Total = Undefined,
      row_value = Undefined, row_Site = None, row_site = None\<rparr>"

definition exampleConfig :: reportConfig where
  "exampleConfig =
     \<lparr>catAttrCombo = ''HllvX50cXC0'', dataSet = ''BfMAe6Itzgt'', period = ''202506'',
      orgUnit = ''rXoaHGAXWy9'',
      hivStagesReportMapping = [(''TX_NEW'', ''dwEq7wi6nXV''), (''PMTCT_STAT'', ''Tt5TAvdfdz7'')]\<rparr>"

definition sheetsInput :: "sheetRow list \<Rightarrow> inputData option" where
  "sheetsInput rows =
     Some \<lparr>in_source = None, in_sheets = None, in_processedData = Some rows,
           in_processedFiles = None\<rparr>"

definition sftpInput :: "sheetRow list \<Rightarrow> inputData option" where
  "sftpInput rows =
     Some \<lparr>in_source = Some ''sftp_excel'', in_sheets = Some [(''DIRECT QUERIES'', rows)],
           in_processedData = None, in_processedFiles = None\<rparr>"




definition indicatorsFile :: "excelIndicator list \<Rightarrow> processedExcel" where
  "indicatorsFile indicators =
     \<lparr>pe_fileName = ''DHIS2_HIV Indicators.xlsx'',
      pe_excelData = \<lparr>xd_type = ''hiv_indicators'', xd_indicators = Some indicators,
                      xd_queries = None\<rparr>\<rparr>"

definition blankState :: wfState where
  "blankState =
     \<lparr>st_data = [], st_fileTracking = None, st_newFilesFound = False, st_newFiles = [],
      st_currentFileList = None, st_lastChecked = None, st_workflowComplete = False,
      st_uploadCompleted = False, st_processedFiles = None, st_uploadSummary = None,
      st_trackingSummary = None, st_workflowCompleted = False, st_completedAt = None\<rparr>"

definition emptyWorkbook :: workbook where
  "emptyWorkbook = \<lparr>SheetNames = [''Sheet1''], Sheets = [(''Sheet1'', \<lparr>asObjects = [], asArrays = []\<rparr>)]\<rparr>"

definition listed :: "string \<Rightarrow> int \<Rightarrow> string \<Rightarrow> sftpEntry" where
  "listed name bytes mtime =
     \<lparr>e_type = ''file'', e_name = name, e_size = bytes, e_modifiedTime = mtime\<rparr>"

definition knownFiles :: "trackingInfo obj" where
  "knownFiles =
     [(''a.xlsx'',
       \<lparr>t_name = ''a.xlsx'', t_size = 100, t_modifiedTime = ''2025-06-01T08:00:00.000Z'',
        t_path = ''/uploads/hiv-indicators/a.xlsx'', t_processedAt = Some 1748766000000,
        t_lastChecked = None, t_status = ''processed'', t_uploadStatus = Some ''SUCCESS'',
        t_dhis2Summary = Some (12, 0, 0)\<rparr>)]"

text \<open>The tracking map holds the size and modifiedTime of a processed file, under its
  name, with the given instant as its date.\<close>

definition recorded :: "processedFile \<Rightarrow> int \<Rightarrow> trackingInfo obj \<Rightarrow> bool" where
  "recorded f clock t =
     (\<exists>info. objGet t (pf_name f) = Some info \<and> t_size info = pf_size f
            \<and> t_modifiedTime info = pf_modifiedTime f \<and> fileDate info = clock)"

definition processedA :: processedFile where
  "processedA =
     \<lparr>pf_name = ''a.xlsx'', pf_size = 100, pf_modifiedTime = ''2025-06-01T08:00:00.000Z'',
      pf_path = ''/uploads/hiv-indicators/a.xlsx''\<rparr>"

text \<open>An instance of the number-to-text conversion for the examples, right on integers.\<close>

definition showInteger :: "rat \<Rightarrow> string" where
  "showInteger r =
     (if 0 \<le> r then natToString (nat \<lfloor>r\<rfloor>) else ''-'' @ natToString (nat \<lfloor>- r\<rfloor>))"

section \<open>Auxiliary facts\<close>

lemma startsWith_prefix: "startsWith s t = prefix t s"
  by (induction s t rule: startsWith.induct) auto

lemma includesStr_sublist: "includesStr s t = sublist t s"
  by (induction s) (auto simp: startsWith_prefix sublist_Cons_right)






lemma ex_max_elem:
  fixes f :: "'a \<Rightarrow> rat"
  shows "xs \<noteq> [] \<Longrightarrow> \<exists>c \<in> set xs. \<forall>d \<in> set xs. f d \<le> f c"
proof (induction xs)
  case Nil
  then show ?case by simp
next
  case (Cons x xs)
  show ?case
  proof (cases "xs = []")
    case True
    then show ?thesis by simp
  next
    case False
    with Cons obtain c where c: "c \<in> set xs" "\<forall>d \<in> set xs. f d \<le> f c" by blast
    show ?thesis
    proof (cases "f c \<le> f x")
      case True
      with c have "\<forall>d \<in> set (x # xs). f d \<le> f x" by auto
      then show ?thesis by auto
    next
      case False
      with c have "\<forall>d \<in> set (x # xs). f d \<le> f c" by auto
      with c(1) show ?thesis by auto
    qed
  qed
qed

text \<open>The loop of the fuzzy matcher, started from any \<open>bestMatch\<close> and \<open>bestScore\<close>.\<close>

lemma fuzzy_loop:
  "fst (foldl (fuzzyStep t) (bm, bs) cs) =
     (case List.find (\<lambda>c. max bs (1 / 2) < normalizedScore t c
                          \<and> (\<forall>d \<in> set cs. normalizedScore t d \<le> normalizedScore t c)) cs of
        None \<Rightarrow> bm | Some c \<Rightarrow> Some c)"
proof (induction cs arbitrary: bm bs)
  case Nil
  then show ?case by simp
next
  case (Cons x xs)
  let ?n = "normalizedScore t"
  show ?case
  proof (cases "?n x > bs \<and> ?n x > 1 / 2")
    case taken: True
    then have step: "fuzzyStep t (bm, bs) x = (Some x, ?n x)"
      by (simp add: fuzzyStep_def)
    have IH: "fst (foldl (fuzzyStep t) (Some x, ?n x) xs) =
        (case List.find (\<lambda>c. max (?n x) (1 / 2) < ?n c \<and> (\<forall>d \<in> set xs. ?n d \<le> ?n c)) xs of
           None \<Rightarrow> Some x | Some c \<Rightarrow> Some c)"
      by (rule Cons.IH)
    show ?thesis
    proof (cases "\<forall>d \<in> set xs. ?n d \<le> ?n x")
      case True
      then have "List.find (\<lambda>c. max (?n x) (1 / 2) < ?n c \<and> (\<forall>d \<in> set xs. ?n d \<le> ?n c)) xs = None"
        by (auto simp: find_None_iff)
      with True taken step IH show ?thesis by simp
    next
      case False
      then have big: "\<exists>d \<in> set xs. ?n x < ?n d" by (auto simp: not_le)
      have eq: "List.find (\<lambda>c. max bs (1 / 2) < ?n c \<and> (\<forall>d \<in> set (x # xs). ?n d \<le> ?n c)) xs
              = List.find (\<lambda>c. max (?n x) (1 / 2) < ?n c \<and> (\<forall>d \<in> set xs. ?n d \<le> ?n c)) xs"
        using big taken by (intro find_cong) (auto simp: max_def)
      from False have "xs \<noteq> []" by auto
      from ex_max_elem[OF this, of ?n] obtain c where
        c: "c \<in> set xs" "\<forall>d \<in> set xs. ?n d \<le> ?n c" by blast
      with big taken have "max (?n x) (1 / 2) < ?n c" by (auto simp: max_def)
      with c have "List.find (\<lambda>c. max (?n x) (1 / 2) < ?n c \<and> (\<forall>d \<in> set xs. ?n d \<le> ?n c)) xs \<noteq> None"
        by (auto simp: find_None_iff)
      with False step IH eq show ?thesis by (auto split: option.splits)
    qed
  next
    case skipped: False
    then have step: "fuzzyStep t (bm, bs) x = (bm, bs)"
      by (auto simp: fuzzyStep_def)
    from skipped have le: "?n x \<le> max bs (1 / 2)" by (auto simp: max_def)
    have eq: "List.find (\<lambda>c. max bs (1 / 2) < ?n c \<and> (\<forall>d \<in> set (x # xs). ?n d \<le> ?n c)) xs
            = List.find (\<lambda>c. max bs (1 / 2) < ?n c \<and> (\<forall>d \<in> set xs. ?n d \<le> ?n c)) xs"
      using le by (intro find_cong) auto
    from le have "\<not> (max bs (1 / 2) < ?n x)" by (simp only: not_less)
    with step eq Cons.IH[of bm bs] show ?thesis by auto
  qed
qed

lemma findFuzzyMatch_find:
  "findFuzzyMatch target candidates =
     List.find (\<lambda>c. 1 / 2 < normalizedScore target c
          \<and> (\<forall>d \<in> set candidates. normalizedScore target d \<le> normalizedScore target c)) candidates"
  unfolding findFuzzyMatch_def fuzzy_loop by (simp split: option.splits)

text \<open>Objects as dictionaries.\<close>

lemma objGet_objSet: "objGet (objSet k v ob) k' = (if k' = k then Some v else objGet ob k')"
  by (induction ob) (auto simp: objGet_def)

lemma objGet_objDelete: "objGet (objDelete k ob) k' = (if k' = k then None else objGet ob k')"
  by (induction ob) (auto simp: objGet_def objDelete_def)

lemma set_Object_keys: "set (Object_keys ob) = fst ` set ob"
  by (auto simp: Object_keys_def Let_def)

lemma objGet_None_iff: "objGet ob k = None \<longleftrightarrow> k \<notin> set (Object_keys ob)"
  by (simp add: objGet_def map_of_eq_None_iff set_Object_keys)

text \<open>Assignments in sequence: the last one to a key wins.\<close>

lemma objGet_assign:
  "objGet (assign k v ob) k' =
     (if k' = k \<and> (k \<noteq> ''__proto__'' \<or> objGet ob k \<noteq> None) then Some v else objGet ob k')"
  by (auto simp: assign_def objGet_objSet)



text \<open>The matching cascade. The first strategy throws exactly when the index has an own
  property named \<open>hasOwnProperty\<close>.\<close>

lemma matchIndicator_throws:
  "objGet iv ''hasOwnProperty'' \<noteq> None \<Longrightarrow> matchIndicator iv k st = Inl TypeError"
  by (simp add: matchIndicator_def exactStrategy_def hasOwnProperty_def)

lemma matchIndicator_returns:
  "objGet iv ''hasOwnProperty'' = None \<Longrightarrow> \<exists>v mt st'. matchIndicator iv k st = Inr (v, mt, st')"
  by (simp add: matchIndicator_def exactStrategy_def hasOwnProperty_def)
     (metis prod_cases3)


lemma findFuzzyMatch_None:
  "\<forall>c \<in> set cs. normalizedScore t c \<le> 1 / 2 \<Longrightarrow> findFuzzyMatch t cs = None"
  unfolding findFuzzyMatch_find by (auto simp: find_None_iff not_less)

lemma matchIndicator_default:
  assumes "objGet iv ''hasOwnProperty'' = None" and "noObservedMatch iv k"
  shows "\<exists>st'. matchIndicator iv k st = Inr (0, ''default'', st')"
proof -
  let ?m0 = "\<lparr>mv_value = None, mv_matchType = ''none'', mv_stats = st\<rparr>"
  from assms(2) have nokey: "k \<notin> set (Object_keys iv)"
    by (auto simp: noObservedMatch_def)
  with assms(1) have s1: "exactStrategy iv k ?m0 = Inr ?m0"
    by (simp add: exactStrategy_def hasOwnProperty_def objGet_None_iff)
  from assms(2) have "List.find (\<lambda>key. toLowerCase key = toLowerCase k) (Object_keys iv) = None"
    by (auto simp: noObservedMatch_def find_None_iff)
  then have s2: "caseInsensitiveStrategy iv k ?m0 = ?m0"
    by (simp add: caseInsensitiveStrategy_def)
  from assms(2) have "List.find (\<lambda>key. includesStr (toLowerCase key) (toLowerCase k)
                              \<or> includesStr (toLowerCase k) (toLowerCase key)) (Object_keys iv) = None"
    by (auto simp: noObservedMatch_def find_None_iff includesStr_sublist)
  then have s3: "partialStrategy iv k ?m0 = ?m0"
    by (simp add: partialStrategy_def)
  from assms(2) have "findFuzzyMatch k (Object_keys iv) = None"
    by (intro findFuzzyMatch_None) (auto simp: noObservedMatch_def)
  then have s4: "fuzzyStrategy iv k ?m0 = ?m0"
    by (simp add: fuzzyStrategy_def)
  show ?thesis
    by (simp add: matchIndicator_def s1 s2 s3 s4 defaultStrategy_def)
qed

text \<open>The loop over the vocabulary: once a round has thrown, the error stays; when no
  round throws, the loop pushes one data value for each entry, in order.\<close>

lemma push_loop_error:
  "foldl (\<lambda>acc entry. case acc of Inl e \<Rightarrow> Inl e | Inr a \<Rightarrow> pushDataValue cfg iv a entry)
         (Inl e) V = Inl e"
  by (induction V) auto

lemma push_loop:
  assumes "objGet iv ''hasOwnProperty'' = None"
  shows "\<exists>ys st'.
        foldl (\<lambda>acc entry. case acc of Inl e \<Rightarrow> Inl e | Inr a \<Rightarrow> pushDataValue cfg iv a entry)
              (Inr acc) V = Inr (fst acc @ ys, st')
        \<and> length ys = length V
        \<and> map originalIndicator ys = map fst V
        \<and> (\<forall>i < length V. \<exists>st st''.
              matchIndicator iv (fst (V ! i)) st = Inr (dv_value (ys ! i), matchType (ys ! i), st''))"
proof (induction V arbitrary: acc)
  case Nil
  then show ?case by (cases acc) simp
next
  case (Cons e V)
  let ?step = "\<lambda>acc entry. case acc of Inl e \<Rightarrow> Inl e | Inr a \<Rightarrow> pushDataValue cfg iv a entry"
  obtain k de where e: "e = (k, de)" by (cases e)
  from matchIndicator_returns[OF assms, of k "snd acc"]
  obtain v mt st1 where mi: "matchIndicator iv k (snd acc) = Inr (v, mt, st1)"
    by blast
  let ?d = "\<lparr>dataElement = de, dv_period = period cfg, dv_orgUnit = orgUnit cfg,
             categoryOptionCombo = catAttrCombo cfg, attributeOptionCombo = catAttrCombo cfg,
             dv_value = v, matchType = mt, originalIndicator = k\<rparr>"
  have step: "pushDataValue cfg iv acc e = Inr (fst acc @ [?d], st1)"
    by (simp add: pushDataValue_def e mi)
  from Cons.IH[of "(fst acc @ [?d], st1)"] obtain ys st' where
    ys: "foldl ?step (Inr (fst acc @ [?d], st1)) V = Inr ((fst acc @ [?d]) @ ys, st')"
        "length ys = length V" "map originalIndicator ys = map fst V"
        "\<forall>i < length V. \<exists>st st''.
              matchIndicator iv (fst (V ! i)) st = Inr (dv_value (ys ! i), matchType (ys ! i), st'')"
    by auto
  have "\<forall>i < length (e # V). \<exists>st st''.
          matchIndicator iv (fst ((e # V) ! i)) st
            = Inr (dv_value ((?d # ys) ! i), matchType ((?d # ys) ! i), st'')"
  proof (intro allI impI)
    fix i assume "i < length (e # V)"
    show "\<exists>st st''. matchIndicator iv (fst ((e # V) ! i)) st
            = Inr (dv_value ((?d # ys) ! i), matchType ((?d # ys) ! i), st'')"
    proof (cases i)
      case 0
      then show ?thesis using mi e by (intro exI[of _ "snd acc"] exI[of _ st1]) simp
    next
      case (Suc j)
      with \<open>i < length (e # V)\<close> have "j < length V" by simp
      with ys(4) Suc show ?thesis by simp
    qed
  qed
  moreover have "foldl ?step (Inr acc) (e # V) = Inr (fst acc @ (?d # ys), st')"
    using step ys(1) by simp
  moreover have "length (?d # ys) = length (e # V)" using ys(2) by simp
  moreover have "map originalIndicator (?d # ys) = map fst (e # V)" using ys(3) e by simp
  ultimately show ?case by blast
qed

lemma matchAll_shape:
  assumes "objGet iv ''hasOwnProperty'' = None"
  shows "\<exists>ys st'. matchAll cfg iv = Inr (ys, st')
     \<and> length ys = length (hivStagesReportMapping cfg)
     \<and> map originalIndicator ys = map fst (hivStagesReportMapping cfg)
     \<and> (\<forall>i < length (hivStagesReportMapping cfg). \<exists>st st''.
           matchIndicator iv (fst (hivStagesReportMapping cfg ! i)) st
             = Inr (dv_value (ys ! i), matchType (ys ! i), st''))"
  using push_loop[OF assms, of cfg "([], \<lparr>exactMatches = 0, partialMatches = 0, noMatches = 0, defaultValues = 0\<rparr>)" "hivStagesReportMapping cfg"]
  unfolding matchAll_def by auto

lemma matchAll_throws:
  assumes "objGet iv ''hasOwnProperty'' \<noteq> None" and "hivStagesReportMapping cfg \<noteq> []"
  shows "matchAll cfg iv = Inl TypeError"
proof -
  from assms(2) obtain e V where V: "hivStagesReportMapping cfg = e # V"
    by (cases "hivStagesReportMapping cfg") auto
  obtain k de where e: "e = (k, de)" by (cases e)
  have "pushDataValue cfg iv a e = Inl TypeError" for a
    by (simp add: pushDataValue_def e matchIndicator_throws[OF assms(1)])
  then show ?thesis
    by (simp add: matchAll_def V push_loop_error)
qed

text \<open>Both generators end with the result of the loop; what the loop gives for the
  \<open>i\<close>-th vocabulary key is read off the payload.\<close>

lemma generatePayload_result:
  "matchAll cfg (fst (extractIndicatorValues strToNum inputData)) = Inr (ys, st')
   \<Longrightarrow> \<exists>p. generatePayload strToNum clock inputData cfg = Inr p \<and> dataValues p = ys"
  by (cases "extractIndicatorValues strToNum inputData") (simp add: generatePayload_def)

lemma generatePayload_sftp_result:
  "matchAll cfg (fst (collectIndicatorValues strToNum files)) = Inr (ys, st')
   \<Longrightarrow> \<exists>p. generatePayload_sftp strToNum clock files cfg = Inr p \<and> dataValues p = ys"
  by (cases "collectIndicatorValues strToNum files") (simp add: generatePayload_sftp_def)


text \<open>
  The index of the SFTP workflow never gets an own property named \<open>hasOwnProperty\<close>:
  the indicators loop reads the inherited method under that key and leaves the index
  as it is, and a key of the queries loop contains an underscore.
\<close>

lemma set_dropWhile_keeps: "c \<in> set s \<Longrightarrow> \<not> P c \<Longrightarrow> c \<in> set (dropWhile P s)"
  by (induction s) auto

lemma trim_keeps: "c \<in> set s \<Longrightarrow> \<not> isSpace c \<Longrightarrow> c \<in> set (trim s)"
  by (simp add: trim_def set_dropWhile_keeps)

lemma underscore_not_space: "\<not> isSpace (CHR ''_'')"
  by (simp add: isSpace_def)

lemma storeIndicator_keeps:
  "objGet (fst acc) ''hasOwnProperty'' = None
   \<Longrightarrow> objGet (fst (storeIndicator strToNum acc i)) ''hasOwnProperty'' = None"
  by (auto simp: storeIndicator_def Let_def objGet_assign prototypeMembers_def
           split: option.splits)

lemma storeQuery_keeps:
  assumes "objGet (fst acc) ''hasOwnProperty'' = None"
  shows "objGet (fst (storeQuery strToNum acc q)) ''hasOwnProperty'' = None"
proof -
  have "CHR ''_'' \<in> set (trim (xq_site q @ ''_'' @ xq_indicator q))"
    by (intro trim_keeps underscore_not_space) simp
  then have "trim (xq_site q @ ''_'' @ xq_indicator q) \<noteq> ''hasOwnProperty''"
    by auto
  with assms show ?thesis
    by (simp add: storeQuery_def Let_def objGet_assign)
qed

lemma storeIndicator_loop_keeps:
  "objGet (fst acc) ''hasOwnProperty'' = None
   \<Longrightarrow> objGet (fst (foldl (storeIndicator strToNum) acc is)) ''hasOwnProperty'' = None"
  by (induction "is" arbitrary: acc) (auto simp: storeIndicator_keeps)

lemma storeQuery_loop_keeps:
  "objGet (fst acc) ''hasOwnProperty'' = None
   \<Longrightarrow> objGet (fst (foldl (storeQuery strToNum) acc qs)) ''hasOwnProperty'' = None"
  by (induction qs arbitrary: acc) (auto simp: storeQuery_keeps)

lemma storeProcessedFile_keeps:
  "objGet (fst acc) ''hasOwnProperty'' = None
   \<Longrightarrow> objGet (fst (storeProcessedFile strToNum acc file)) ''hasOwnProperty'' = None"
  by (simp add: storeProcessedFile_def Let_def storeIndicator_loop_keeps storeQuery_loop_keeps
           split: option.splits)

lemma storeProcessedFile_loop_keeps:
  "objGet (fst acc) ''hasOwnProperty'' = None
   \<Longrightarrow> objGet (fst (foldl (storeProcessedFile strToNum) acc files)) ''hasOwnProperty'' = None"
  by (induction files arbitrary: acc) (auto simp: storeProcessedFile_keeps)

lemma collectIndicatorValues_no_hasOwnProperty:
  "objGet (fst (collectIndicatorValues strToNum files)) ''hasOwnProperty'' = None"
  unfolding collectIndicatorValues_def
  by (rule storeProcessedFile_loop_keeps) (simp add: objGet_def)






text \<open>The extension test of the check job.\<close>

lemma of_char_toLowerChar:
  "(of_char (toLowerChar c) :: nat) =
     (if (65 \<le> (of_char c :: nat) \<and> (of_char c :: nat) \<le> 90)
         \<or> (192 \<le> (of_char c :: nat) \<and> (of_char c :: nat) \<le> 222 \<and> (of_char c :: nat) \<noteq> 215)
      then of_char c + 32 else of_char c)"
  by (auto simp: toLowerChar_def Let_def)

lemma toLowerChar_dot: "toLowerChar c = CHR ''.'' \<longleftrightarrow> c = CHR ''.''"
proof
  assume "toLowerChar c = CHR ''.''"
  then have "(of_char (toLowerChar c) :: nat) = 46" by simp
  then have "(of_char c :: nat) = 46"
    by (simp add: of_char_toLowerChar split: if_splits)
  then have "(of_char c :: nat) = of_char (CHR ''.'')" by simp
  then show "c = CHR ''.''" by (simp only: of_char_eq_iff)
next
  assume "c = CHR ''.''"
  then show "toLowerChar c = CHR ''.''" by (simp add: toLowerChar_def)
qed

lemma lastIndexOf_append:
  "c \<notin> set t \<Longrightarrow> lastIndexOf (p @ c # t) c = int (length p)"
proof -
  assume "c \<notin> set t"
  then have "takeWhile (\<lambda>x. x \<noteq> c) (rev (p @ c # t)) = rev t"
    by (auto simp: takeWhile_tail)
  then show ?thesis by (simp add: lastIndexOf_def)
qed

lemma extension_suffix:
  assumes "length ext > 0" "hd ext = CHR ''.''" "CHR ''.'' \<notin> set (tl ext)"
  shows "extensionOf name = ext \<longleftrightarrow> suffix ext (toLowerCase name)"
proof
  assume "extensionOf name = ext"
  then show "suffix ext (toLowerCase name)"
    by (metis extensionOf_def substringFrom_def suffix_drop)
next
  assume "suffix ext (toLowerCase name)"
  then obtain p where p: "toLowerCase name = p @ ext" by (auto simp: suffix_def)
  from assms obtain t where ext: "ext = CHR ''.'' # t" "CHR ''.'' \<notin> set t"
    by (cases ext) auto
  define p' where "p' = take (length p) name"
  define t' where "t' = drop (Suc (length p)) name"
  have len: "length name = length p + Suc (length t)"
    using p ext by (metis length_append length_Cons length_map toLowerCase_def)
  have nm: "name = p' @ (name ! length p) # t'"
    unfolding p'_def t'_def using len by (simp add: id_take_nth_drop)
  have "toLowerChar (name ! length p) = (toLowerCase name) ! length p"
    using len by (simp add: toLowerCase_def)
  also have "\<dots> = CHR ''.''" using p ext by simp
  finally have dot: "name ! length p = CHR ''.''" by (simp add: toLowerChar_dot)
  have "map toLowerChar t' = t"
    using p ext unfolding t'_def toLowerCase_def
    by (metis append_eq_conv_conj drop_Suc drop_map list.sel(3) tl_drop length_map)
  then have "CHR ''.'' \<notin> set t'"
    using ext(2) toLowerChar_dot by (metis (no_types, lifting) image_eqI list.set_map)
  with nm dot have "lastIndexOf name (CHR ''.'') = int (length p')"
    by (metis lastIndexOf_append)
  moreover have "length p' = length p" unfolding p'_def using len by simp
  ultimately show "extensionOf name = ext"
    by (simp add: extensionOf_def substringFrom_def p)
qed

lemma supportedFile_iff:
  "supportedFile file \<longleftrightarrow>
     e_type file = ''file''
     \<and> (suffix ''.xlsx'' (toLowerCase (e_name file)) \<or> suffix ''.xls'' (toLowerCase (e_name file)))"
proof -
  have a: "extensionOf (e_name file) = ''.xlsx'' \<longleftrightarrow> suffix ''.xlsx'' (toLowerCase (e_name file))"
    by (rule extension_suffix) simp_all
  have b: "extensionOf (e_name file) = ''.xls'' \<longleftrightarrow> suffix ''.xls'' (toLowerCase (e_name file))"
    by (rule extension_suffix) simp_all
  show ?thesis
    using a b by (auto simp: supportedFile_def SUPPORTED_EXTENSIONS_def)
qed

text \<open>The loop of the check job.\<close>

lemma checkFile_cases:
  "checkFile prev (cur, nf, found) file =
     (if supportedFile file then
        (objSet (e_name file) (fileInfoOf file) cur,
         (if newOrModified prev (fileInfoOf file) then nf @ [fileInfoOf file] else nf),
         (if newOrModified prev (fileInfoOf file) then True else found))
      else (cur, nf, found))"
  by (simp add: checkFile_def supportedFile_def Let_def)

lemma newFiles_loop:
  "fst (snd (foldl (checkFile prev) (cur, nf, found) L))
     = nf @ map fileInfoOf
              (filter (\<lambda>file. supportedFile file \<and> newOrModified prev (fileInfoOf file)) L)"
  by (induction L arbitrary: cur nf found) (simp_all add: checkFile_cases)

lemma st_newFiles_check:
  "st_newFiles (checkSftpFiles clock state)
     = map fileInfoOf
         (filter (\<lambda>file. supportedFile file
                    \<and> newOrModified (case st_fileTracking state of None \<Rightarrow> [] | Some t \<Rightarrow> t)
                                    (fileInfoOf file))
                 (st_data state))"
proof -
  obtain cur nf found where
    r: "foldl (checkFile (case st_fileTracking state of None \<Rightarrow> [] | Some t \<Rightarrow> t)) ([], [], False)
          (st_data state) = (cur, nf, found)"
    by (metis prod_cases3)
  from newFiles_loop[of "case st_fileTracking state of None \<Rightarrow> [] | Some t \<Rightarrow> t" "[]" "[]" False "st_data state"] r
  show ?thesis by (simp add: checkSftpFiles_def Let_def)
qed

lemma newOrModified_fileInfoOf:
  "newOrModified prev (fileInfoOf file) =
     (case objGet prev (e_name file) of
        None \<Rightarrow> True
      | Some previousFile \<Rightarrow>
          t_modifiedTime previousFile \<noteq> e_modifiedTime file \<or> t_size previousFile \<noteq> e_size file)"
  by (simp add: newOrModified_def fileInfoOf_def split: option.splits)

lemma set_objSet_subset: "set (objSet k v ob) \<subseteq> insert (k, v) (set ob)"
  by (induction k v ob rule: objSet.induct) auto

lemma currentFiles_entries:
  "\<forall>p \<in> set cur. \<exists>file \<in> set (L0 @ L). supportedFile file \<and> p = (e_name file, fileInfoOf file) \<Longrightarrow>
   \<forall>p \<in> set (fst (foldl (checkFile prev) (cur, nf, found) L)).
      \<exists>file \<in> set (L0 @ L). supportedFile file \<and> p = (e_name file, fileInfoOf file)"
proof (induction L arbitrary: cur nf found L0)
  case Nil
  then show ?case by simp
next
  case (Cons x L)
  show ?case
  proof (cases "supportedFile x")
    case True
    have "\<forall>p \<in> set (objSet (e_name x) (fileInfoOf x) cur).
            \<exists>file \<in> set ((L0 @ [x]) @ L). supportedFile file \<and> p = (e_name file, fileInfoOf file)"
    proof
      fix p assume "p \<in> set (objSet (e_name x) (fileInfoOf x) cur)"
      with set_objSet_subset have "p = (e_name x, fileInfoOf x) \<or> p \<in> set cur" by fastforce
      then show "\<exists>file \<in> set ((L0 @ [x]) @ L). supportedFile file \<and> p = (e_name file, fileInfoOf file)"
        using True Cons.prems by auto
    qed
    from Cons.IH[OF this] True show ?thesis
      by (simp add: checkFile_cases)
  next
    case False
    from Cons.prems have "\<forall>p \<in> set cur.
            \<exists>file \<in> set ((L0 @ [x]) @ L). supportedFile file \<and> p = (e_name file, fileInfoOf file)"
      by auto
    from Cons.IH[OF this] False show ?thesis
      by (simp add: checkFile_cases)
  qed
qed

lemma st_currentFileList_entries:
  "\<exists>cur. st_currentFileList (checkSftpFiles clock state) = Some cur
        \<and> (\<forall>p \<in> set cur. \<exists>file \<in> set (st_data state).
               supportedFile file \<and> p = (e_name file, fileInfoOf file))"
proof -
  obtain cur nf found where
    r: "foldl (checkFile (case st_fileTracking state of None \<Rightarrow> [] | Some t \<Rightarrow> t)) ([], [], False)
          (st_data state) = (cur, nf, found)"
    by (metis prod_cases3)
  from currentFiles_entries[of "[]" "[]" "st_data state" "case st_fileTracking state of None \<Rightarrow> [] | Some t \<Rightarrow> t" "[]" False] r
  show ?thesis by (simp add: checkSftpFiles_def Let_def)
qed

text \<open>The update job.\<close>

lemma trackProcessed_loop:
  assumes "recorded f clock t \<or> f \<in> set files"
    and "\<forall>g \<in> set files. pf_name g = pf_name f \<longrightarrow>
            pf_size g = pf_size f \<and> pf_modifiedTime g = pf_modifiedTime f"
  shows "recorded f clock (foldl (trackProcessed clock summary) t files)"
  using assms
proof (induction files arbitrary: t)
  case Nil
  then show ?case by simp
next
  case (Cons g files)
  have "recorded f clock (trackProcessed clock summary t g) \<or> f \<in> set files"
  proof (cases "pf_name g = pf_name f")
    case True
    with Cons.prems(2) have "pf_size g = pf_size f \<and> pf_modifiedTime g = pf_modifiedTime f"
      by simp
    with True have "recorded f clock (trackProcessed clock summary t g)"
      by (simp add: recorded_def trackProcessed_def objGet_objSet fileDate_def Let_def)
    then show ?thesis ..
  next
    case False
    then have "objGet (trackProcessed clock summary t g) (pf_name f) = objGet t (pf_name f)"
      by (simp add: trackProcessed_def objGet_objSet Let_def)
    moreover from False Cons.prems(1) have "recorded f clock t \<or> f \<in> set files" by auto
    ultimately show ?thesis by (auto simp: recorded_def)
  qed
  moreover from Cons.prems(2) have "\<forall>g \<in> set files. pf_name g = pf_name f \<longrightarrow>
            pf_size g = pf_size f \<and> pf_modifiedTime g = pf_modifiedTime f" by simp
  ultimately show ?case using Cons.IH by simp
qed

lemma trackChecked_keeps:
  "objGet t k = Some info \<Longrightarrow> objGet (foldl (trackChecked clock) t es) k = Some info"
proof (induction es arbitrary: t)
  case Nil
  then show ?case by simp
next
  case (Cons e es)
  obtain key fi where e: "e = (key, fi)" by (cases e)
  from Cons.prems have "objGet (trackChecked clock t e) k = Some info"
    by (auto simp: trackChecked_def e objGet_objSet)
  from Cons.IH[OF this] show ?case by simp
qed

lemma cleanUp_loop_keeps:
  assumes "objGet t k = Some info" and "\<not> fileDate info < cutoff"
  shows "objGet (foldl (\<lambda>tracking fileKey.
              case objGet tracking fileKey of
                None \<Rightarrow> tracking
              | Some i \<Rightarrow> if fileDate i < cutoff then objDelete fileKey tracking else tracking)
           t ks) k = Some info"
  using assms
proof (induction ks arbitrary: t)
  case Nil
  then show ?case by simp
next
  case (Cons key ks)
  let ?t' = "case objGet t key of
                None \<Rightarrow> t
              | Some i \<Rightarrow> if fileDate i < cutoff then objDelete key t else t"
  from Cons.prems have "objGet ?t' k = Some info"
    by (cases "key = k") (auto simp: objGet_objDelete split: option.splits)
  from Cons.IH[OF this Cons.prems(2)] show ?case by simp
qed

lemma cleanUp_keeps:
  "objGet t k = Some info \<Longrightarrow> fileDate info = clock \<Longrightarrow> objGet (cleanUp clock t) k = Some info"
  unfolding cleanUp_def by (rule cleanUp_loop_keeps) (simp_all add: thirtyDaysAgo_def)

lemma update_records:
  assumes "st_uploadCompleted state" and "st_processedFiles state = Some files" and "f \<in> set files"
    and "\<forall>g \<in> set files. pf_name g = pf_name f \<longrightarrow>
            pf_size g = pf_size f \<and> pf_modifiedTime g = pf_modifiedTime f"
  shows "\<exists>t. st_fileTracking (updateFileTracking clock state) = Some t \<and> recorded f clock t"
proof -
  let ?t0 = "case st_fileTracking state of None \<Rightarrow> [] | Some t \<Rightarrow> t"
  let ?t1 = "foldl (trackProcessed clock (st_uploadSummary state)) ?t0 files"
  let ?t2 = "case st_currentFileList state of
               None \<Rightarrow> ?t1
             | Some current \<Rightarrow> foldl (trackChecked clock) ?t1 (Object_entries current)"
  from trackProcessed_loop[of f clock ?t0 files "st_uploadSummary state"] assms(3,4)
  have "recorded f clock ?t1" by blast
  then obtain info where info: "objGet ?t1 (pf_name f) = Some info" "t_size info = pf_size f"
      "t_modifiedTime info = pf_modifiedTime f" "fileDate info = clock"
    by (auto simp: recorded_def)
  from info(1) have "objGet ?t2 (pf_name f) = Some info"
    by (auto simp: trackChecked_keeps split: option.splits)
  then have "objGet (cleanUp clock ?t2) (pf_name f) = Some info"
    using info(4) by (rule cleanUp_keeps)
  with info have "recorded f clock (cleanUp clock ?t2)"
    by (auto simp: recorded_def)
  moreover have "st_fileTracking (updateFileTracking clock state) = Some (cleanUp clock ?t2)"
    using assms(1,2) by (simp add: updateFileTracking_def Let_def)
  ultimately show ?thesis by blast
qed

text \<open>The parsers on a sheet without data rows.\<close>

lemma parseHIV_empty:
  "asObjects (firstSheet wb) = [] \<Longrightarrow>
     parseHIVIndicators strToNum wb = emptyParsedData\<lparr>pd_indicators := Some []\<rparr>"
  by (simp add: parseHIVIndicators_def)

lemma parseDirectQueries_empty:
  "length (asArrays (firstSheet wb)) \<le> 1 \<Longrightarrow>
     parseDirectQueries strToNum numToStr wb = emptyParsedData\<lparr>pd_queries := Some []\<rparr>"
  by (simp add: parseDirectQueries_def Let_def map_filter_simps)

lemma parseDQSites_empty:
  "length (asArrays (firstSheet wb)) \<le> 1 \<Longrightarrow>
     parseDQSites strToNum numToStr wb = emptyParsedData\<lparr>pd_sites := Some []\<rparr>"
  by (simp add: parseDQSites_def Let_def map_filter_simps)

lemma no_rows_total:
  "foldl (\<lambda>sum sh. sum + gs_rowCount sh) n
         (map (\<lambda>sheetName. \<lparr>gs_sheetName = sheetName, gs_data = [], gs_rowCount = 0\<rparr>) names) = n"
  by (induction names arbitrary: n) simp_all

lemma parseGenericExcel_empty:
  assumes "\<forall>sh \<in> snd ` set (Sheets wb). asObjects sh = []"
  shows "parseGenericExcel wb =
           emptyParsedData
             \<lparr>pd_type := Some ''generic'',
              pd_sheets := Some (map (\<lambda>sheetName. \<lparr>gs_sheetName = sheetName, gs_data = [],
                                                   gs_rowCount = 0\<rparr>) (SheetNames wb)),
              pd_totalRows := Some 0\<rparr>"
proof -
  have "\<And>sheetName. (case map_of (Sheets wb) sheetName of None \<Rightarrow> [] | Some sh \<Rightarrow> asObjects sh) = []"
  proof -
    fix sheetName
    show "(case map_of (Sheets wb) sheetName of None \<Rightarrow> [] | Some sh \<Rightarrow> asObjects sh) = []"
    proof (cases "map_of (Sheets wb) sheetName")
      case None
      then show ?thesis by simp
    next
      case (Some sh)
      then have "(sheetName, sh) \<in> set (Sheets wb)" by (rule map_of_SomeD)
      then have "sh \<in> snd ` set (Sheets wb)" by force
      with assms have "asObjects sh = []" by blast
      with Some show ?thesis by simp
    qed
  qed
  then show ?thesis
    by (simp add: parseGenericExcel_def Let_def no_rows_total)
qed

section \<open>One result for each vocabulary key\<close>

text \<open>
  C1. The claim is that for every vocabulary (\<open>hivStagesReportMapping\<close>) and every
  input the \<open>dataValues\<close> array has exactly one entry for each vocabulary key, with
  match type \<open>default\<close> and value 0 for a key that nothing matches. The matching loop
  asks \<open>indicatorValues.hasOwnProperty(indicatorKey)\<close>, calling the method through the
  index. In the reports workflow a row whose indicator is named \<open>hasOwnProperty\<close>
  stores a number under that name; the call in the first round of the loop then throws
  a TypeError, and the generator returns no payload: for the vocabulary of two keys
  there is no \<open>dataValues\<close> array, where the claim has one of two entries.
\<close>

theorem record_named_hasOwnProperty_throws:
  "generatePayload readDigits ''2025-06-30T10:00:00.000Z''
     (sheetsInput [blankRow\<lparr>row_Indicator := Some ''hasOwnProperty'', row_Value := Num 3\<rparr>])
     exampleConfig
   = Inl TypeError"
  by code_simp

text \<open>
  This is the only way the loop fails. The generator of the reports workflow throws
  exactly when the index has an own property named \<open>hasOwnProperty\<close> and the
  vocabulary is not empty; on every other input it returns a payload with one entry for
  each vocabulary key, in the vocabulary's order, and a key that no observed key matches
  gets match type \<open>default\<close> and value 0. The generator of the SFTP workflow returns
  such a payload on every input, since its index never gets that property.
\<close>

lemma matchAll_one_result_per_key:
  assumes "objGet iv ''hasOwnProperty'' = None"
  shows "\<exists>ys st'. matchAll cfg iv = Inr (ys, st')
     \<and> length ys = length (hivStagesReportMapping cfg)
     \<and> map originalIndicator ys = map fst (hivStagesReportMapping cfg)
     \<and> (\<forall>i < length (hivStagesReportMapping cfg).
          noObservedMatch iv (fst (hivStagesReportMapping cfg ! i))
          \<longrightarrow> matchType (ys ! i) = ''default'' \<and> dv_value (ys ! i) = 0)"
proof -
  from matchAll_shape[OF assms, of cfg] obtain ys st' where
    ys: "matchAll cfg iv = Inr (ys, st')" "length ys = length (hivStagesReportMapping cfg)"
        "map originalIndicator ys = map fst (hivStagesReportMapping cfg)"
        "\<forall>i < length (hivStagesReportMapping cfg). \<exists>st st''.
           matchIndicator iv (fst (hivStagesReportMapping cfg ! i)) st
             = Inr (dv_value (ys ! i), matchType (ys ! i), st'')"
    by blast
  have "\<forall>i < length (hivStagesReportMapping cfg).
          noObservedMatch iv (fst (hivStagesReportMapping cfg ! i))
          \<longrightarrow> matchType (ys ! i) = ''default'' \<and> dv_value (ys ! i) = 0"
  proof (intro allI impI)
    fix i
    assume i: "i < length (hivStagesReportMapping cfg)"
      and no: "noObservedMatch iv (fst (hivStagesReportMapping cfg ! i))"
    from ys(4) i obtain st st'' where
      st: "matchIndicator iv (fst (hivStagesReportMapping cfg ! i)) st
             = Inr (dv_value (ys ! i), matchType (ys ! i), st'')"
      by blast
    from matchIndicator_default[OF assms no, of st] obtain st0 where
      "matchIndicator iv (fst (hivStagesReportMapping cfg ! i)) st = Inr (0, ''default'', st0)"
      by blast
    with st show "matchType (ys ! i) = ''default'' \<and> dv_value (ys ! i) = 0"
      by simp
  qed
  with ys(1,2,3) show ?thesis by blast
qed

lemma generatePayload_one_result_per_key:
  assumes "objGet (fst (extractIndicatorValues strToNum inputData)) ''hasOwnProperty'' = None"
  shows "\<exists>p. generatePayload strToNum clock inputData cfg = Inr p
     \<and> length (dataValues p) = length (hivStagesReportMapping cfg)
     \<and> map originalIndicator (dataValues p) = map fst (hivStagesReportMapping cfg)
     \<and> (\<forall>i < length (hivStagesReportMapping cfg).
          noObservedMatch (fst (extractIndicatorValues strToNum inputData))
                          (fst (hivStagesReportMapping cfg ! i))
          \<longrightarrow> matchType (dataValues p ! i) = ''default'' \<and> dv_value (dataValues p ! i) = 0)"
proof -
  from matchAll_one_result_per_key[OF assms, of cfg] obtain ys st' where
    ys: "matchAll cfg (fst (extractIndicatorValues strToNum inputData)) = Inr (ys, st')"
        "length ys = length (hivStagesReportMapping cfg)"
        "map originalIndicator ys = map fst (hivStagesReportMapping cfg)"
        "\<forall>i < length (hivStagesReportMapping cfg).
          noObservedMatch (fst (extractIndicatorValues strToNum inputData))
                          (fst (hivStagesReportMapping cfg ! i))
          \<longrightarrow> matchType (ys ! i) = ''default'' \<and> dv_value (ys ! i) = 0"
    by blast
  from generatePayload_result[OF ys(1), of clock] obtain p where
    "generatePayload strToNum clock inputData cfg = Inr p" "dataValues p = ys"
    by blast
  with ys(2,3,4) show ?thesis by blast
qed

lemma generatePayload_throws:
  assumes "objGet (fst (extractIndicatorValues strToNum inputData)) ''hasOwnProperty'' \<noteq> None"
    and "hivStagesReportMapping cfg \<noteq> []"
  shows "generatePayload strToNum clock inputData cfg = Inl TypeError"
  using matchAll_throws[OF assms]
  by (cases "extractIndicatorValues strToNum inputData") (simp add: generatePayload_def)

lemma generatePayload_sftp_one_result_per_key:
  "\<exists>p. generatePayload_sftp strToNum clock processedFiles cfg = Inr p
     \<and> length (dataValues p) = length (hivStagesReportMapping cfg)
     \<and> map originalIndicator (dataValues p) = map fst (hivStagesReportMapping cfg)
     \<and> (\<forall>i < length (hivStagesReportMapping cfg).
          noObservedMatch (fst (collectIndicatorValues strToNum processedFiles))
                          (fst (hivStagesReportMapping cfg ! i))
          \<longrightarrow> matchType (dataValues p ! i) = ''default'' \<and> dv_value (dataValues p ! i) = 0)"
proof -
  from matchAll_one_result_per_key[OF collectIndicatorValues_no_hasOwnProperty, where cfg = cfg]
  obtain ys st' where
    ys: "matchAll cfg (fst (collectIndicatorValues strToNum processedFiles)) = Inr (ys, st')"
        "length ys = length (hivStagesReportMapping cfg)"
        "map originalIndicator ys = map fst (hivStagesReportMapping cfg)"
        "\<forall>i < length (hivStagesReportMapping cfg).
          noObservedMatch (fst (collectIndicatorValues strToNum processedFiles))
                          (fst (hivStagesReportMapping cfg ! i))
          \<longrightarrow> matchType (ys ! i) = ''default'' \<and> dv_value (ys ! i) = 0"
    by blast
  from generatePayload_sftp_result[OF ys(1), of clock] obtain p where
    "generatePayload_sftp strToNum clock processedFiles cfg = Inr p" "dataValues p = ys"
    by blast
  with ys(2,3,4) show ?thesis by blast
qed

text \<open>In the SFTP workflow an indicator named \<open>hasOwnProperty\<close> is not stored, and the
  vocabulary gets its two entries.\<close>

lemma indicator_named_hasOwnProperty_sftp:
  "fst (collectIndicatorValues readDigits
          [indicatorsFile [\<lparr>xi_indicator = ''hasOwnProperty'', xi_value = Num 3\<rparr>]]) = []
   \<and> entryAt (generatePayload_sftp readDigits ''2025-06-30T10:00:00.000Z''
          [indicatorsFile [\<lparr>xi_indicator = ''hasOwnProperty'', xi_value = Num 3\<rparr>]]
          exampleConfig) 1 = Some (''default'', 0)"
  by code_simp

section \<open>Exact matches\<close>












section \<open>Duplicate keys in the index\<close>

text \<open>
  C3. The claim is that a later record with the same key overwrites an earlier one in
  every branch that builds the index. The indicators loop of the SFTP workflow (under
  the comment "Use the most recent value if duplicate indicators exist") overwrites only
  when the stored number is 0 or smaller than the new one: of the two records
  TX_NEW = 5 and then TX_NEW = 3, the index keeps 5, the first.
\<close>

theorem duplicate_indicator_keeps_larger_value:
  "objGet (fst (collectIndicatorValues readDigits
             [indicatorsFile [\<lparr>xi_indicator = ''TX_NEW'', xi_value = Num 5\<rparr>,
                              \<lparr>xi_indicator = ''TX_NEW'', xi_value = Num 3\<rparr>]]))
          ''TX_NEW'' = Some 5"
  by code_simp

text \<open>
  In the reports workflow every record that is stored replaces the earlier one of its key
  (fact \<open>index_lastStored\<close>, for every key but \<open>__proto__\<close>, under which
  nothing is stored). A row whose \<open>Value\<close> cell is the number 0 is not
  stored there, since \<open>row['Value'] || row['value']\<close> passes over the 0: it does not
  replace an earlier record of its key.
\<close>

lemma zero_valued_row_is_not_stored:
  "storedEntries readDigits
     (sheetsInput [blankRow\<lparr>row_Indicator := Some ''TX_NEW'', row_Value := Num 85\<rparr>,
                   blankRow\<lparr>row_Indicator := Some ''TX_NEW'', row_Value := Num 0\<rparr>])
     = [(''TX_NEW'', 85)]"
  by code_simp

section \<open>The fuzzy matcher meets its specification\<close>



section \<open>Classification of listed files\<close>

text \<open>
  C6, as amended. For every listing and every tracking map, and every listed entry of
  type \<open>file\<close> whose name ends, case ignored, in \<open>.xlsx\<close> or \<open>.xls\<close>: the file is put
  into the new-files set if and only if its name is absent from the tracking map, or its
  size differs from the stored record, or its modifiedTime differs from the stored
  record. In particular a tracked file with the stored size and modifiedTime is not in
  the new-files set.

  As stated (for every file of the listing) the claim fails: a file with another
  extension is never put into the new-files set, also when the tracking map does not
  know it.
\<close>

theorem supported_file_new_iff_absent_or_changed:
  assumes "file \<in> set (st_data state)"
    and "e_type file = ''file''"
    and "suffix ''.xlsx'' (toLowerCase (e_name file)) \<or> suffix ''.xls'' (toLowerCase (e_name file))"
  shows "fileInfoOf file \<in> set (st_newFiles (checkSftpFiles clock state)) \<longleftrightarrow>
           (case objGet (case st_fileTracking state of None \<Rightarrow> [] | Some t \<Rightarrow> t) (e_name file) of
              None \<Rightarrow> True
            | Some previousFile \<Rightarrow>
                t_size previousFile \<noteq> e_size file
                \<or> t_modifiedTime previousFile \<noteq> e_modifiedTime file)"
proof -
  let ?prev = "case st_fileTracking state of None \<Rightarrow> [] | Some t \<Rightarrow> t"
  from assms(2,3) have sup: "supportedFile file" by (simp add: supportedFile_iff)
  have mem: "set (st_newFiles (checkSftpFiles clock state))
          = fileInfoOf ` {g \<in> set (st_data state).
                           supportedFile g \<and> newOrModified ?prev (fileInfoOf g)}"
    by (simp add: st_newFiles_check)
  have "fileInfoOf file \<in> set (st_newFiles (checkSftpFiles clock state))
          \<longleftrightarrow> newOrModified ?prev (fileInfoOf file)"
  proof
    assume "fileInfoOf file \<in> set (st_newFiles (checkSftpFiles clock state))"
    then obtain g where "newOrModified ?prev (fileInfoOf g)" "fileInfoOf file = fileInfoOf g"
      unfolding mem by blast
    then show "newOrModified ?prev (fileInfoOf file)" by simp
  next
    assume "newOrModified ?prev (fileInfoOf file)"
    with assms(1) sup show "fileInfoOf file \<in> set (st_newFiles (checkSftpFiles clock state))"
      unfolding mem by blast
  qed
  then show ?thesis
    by (auto simp: newOrModified_fileInfoOf split: option.splits)
qed

theorem supported_file_new_iff_absent_or_changed_witness:
  "listed ''a.xlsx'' 150 ''2025-06-01T08:00:00.000Z''
     \<in> set (st_data (blankState\<lparr>st_data := [listed ''a.xlsx'' 150 ''2025-06-01T08:00:00.000Z''],
                                 st_fileTracking := Some knownFiles\<rparr>))
   \<and> e_type (listed ''a.xlsx'' 150 ''2025-06-01T08:00:00.000Z'') = ''file''
   \<and> suffix ''.xlsx'' (toLowerCase (e_name (listed ''a.xlsx'' 150 ''2025-06-01T08:00:00.000Z'')))
   \<and> fileInfoOf (listed ''a.xlsx'' 150 ''2025-06-01T08:00:00.000Z'')
        \<in> set (st_newFiles (checkSftpFiles 1751277600000
              (blankState\<lparr>st_data := [listed ''a.xlsx'' 150 ''2025-06-01T08:00:00.000Z''],
                          st_fileTracking := Some knownFiles\<rparr>)))
   \<and> fileInfoOf (listed ''a.xlsx'' 100 ''2025-06-01T08:00:00.000Z'')
        \<notin> set (st_newFiles (checkSftpFiles 1751277600000
              (blankState\<lparr>st_data := [listed ''a.xlsx'' 100 ''2025-06-01T08:00:00.000Z''],
                          st_fileTracking := Some knownFiles\<rparr>)))"
proof -
  let ?changed = "listed ''a.xlsx'' 150 ''2025-06-01T08:00:00.000Z''"
  let ?same = "listed ''a.xlsx'' 100 ''2025-06-01T08:00:00.000Z''"
  let ?s1 = "blankState\<lparr>st_data := [?changed], st_fileTracking := Some knownFiles\<rparr>"
  let ?s2 = "blankState\<lparr>st_data := [?same], st_fileTracking := Some knownFiles\<rparr>"
  have in1: "?changed \<in> set (st_data ?s1)" by simp
  have in2: "?same \<in> set (st_data ?s2)" by simp
  have ty: "e_type ?changed = ''file''" "e_type ?same = ''file''"
    by (simp_all add: listed_def)
  have sf: "suffix ''.xlsx'' (toLowerCase (e_name ?changed))"
           "suffix ''.xlsx'' (toLowerCase (e_name ?same))"
    by code_simp+
  have r1: "(case objGet (case st_fileTracking ?s1 of None \<Rightarrow> [] | Some t \<Rightarrow> t) (e_name ?changed) of
              None \<Rightarrow> True
            | Some previousFile \<Rightarrow>
                t_size previousFile \<noteq> e_size ?changed
                \<or> t_modifiedTime previousFile \<noteq> e_modifiedTime ?changed)"
    by (simp add: listed_def knownFiles_def objGet_def)
  have r2: "\<not> (case objGet (case st_fileTracking ?s2 of None \<Rightarrow> [] | Some t \<Rightarrow> t) (e_name ?same) of
              None \<Rightarrow> True
            | Some previousFile \<Rightarrow>
                t_size previousFile \<noteq> e_size ?same
                \<or> t_modifiedTime previousFile \<noteq> e_modifiedTime ?same)"
    by (simp add: listed_def knownFiles_def objGet_def)
  from supported_file_new_iff_absent_or_changed[OF in1 ty(1) disjI1[OF sf(1)], of 1751277600000] r1
  have w1: "fileInfoOf ?changed \<in> set (st_newFiles (checkSftpFiles 1751277600000 ?s1))"
    by blast
  from supported_file_new_iff_absent_or_changed[OF in2 ty(2) disjI1[OF sf(2)], of 1751277600000] r2
  have w2: "fileInfoOf ?same \<notin> set (st_newFiles (checkSftpFiles 1751277600000 ?s2))"
    by blast
  from in1 ty(1) sf(1) w1 w2 show ?thesis by blast
qed

theorem unsupported_file_counterexample:
  "objGet (case st_fileTracking (blankState\<lparr>st_data := [listed ''notes.txt'' 12 ''2025-06-01T08:00:00.000Z'']\<rparr>) of
             None \<Rightarrow> [] | Some t \<Rightarrow> t)
          (e_name (listed ''notes.txt'' 12 ''2025-06-01T08:00:00.000Z'')) = None
   \<and> fileInfoOf (listed ''notes.txt'' 12 ''2025-06-01T08:00:00.000Z'')
        \<notin> set (st_newFiles (checkSftpFiles 1751277600000
              (blankState\<lparr>st_data := [listed ''notes.txt'' 12 ''2025-06-01T08:00:00.000Z'']\<rparr>)))"
proof -
  have "extensionOf ''notes.txt'' = ''.txt''" by code_simp
  then have "\<not> supportedFile (listed ''notes.txt'' 12 ''2025-06-01T08:00:00.000Z'')"
    by (simp add: supportedFile_def listed_def SUPPORTED_EXTENSIONS_def)
  then show ?thesis
    by (simp add: st_newFiles_check blankState_def objGet_def)
qed

section \<open>Commit, then classify\<close>

text \<open>
  C7. For every file \<open>f\<close>: when the tracking update runs after a completed upload with
  \<open>f\<close> among the processed files (and every processed file of that name has the size
  and modifiedTime of \<open>f\<close>, so that it is the size and modifiedTime of \<open>f\<close> that the
  update records), then a later run of the check job on the updated state, over any
  listing in which the file of that name has the same size and modifiedTime, does not
  put the file into the new-files set.
\<close>

theorem committed_file_not_new_again:
  assumes "st_uploadCompleted state"
    and "st_processedFiles state = Some files"
    and "f \<in> set files"
    and "\<forall>g \<in> set files. pf_name g = pf_name f \<longrightarrow>
            pf_size g = pf_size f \<and> pf_modifiedTime g = pf_modifiedTime f"
    and "\<forall>entry \<in> set listing. e_name entry = pf_name f \<longrightarrow>
            e_size entry = pf_size f \<and> e_modifiedTime entry = pf_modifiedTime f"
  shows "\<forall>info \<in> set (st_newFiles
                         (checkSftpFiles clock' ((updateFileTracking clock state)\<lparr>st_data := listing\<rparr>))).
           fi_name info \<noteq> pf_name f"
proof
  fix info
  let ?s = "(updateFileTracking clock state)\<lparr>st_data := listing\<rparr>"
  assume "info \<in> set (st_newFiles (checkSftpFiles clock' ?s))"
  then obtain entry where entry: "entry \<in> set listing" "info = fileInfoOf entry"
      "newOrModified (case st_fileTracking ?s of None \<Rightarrow> [] | Some t \<Rightarrow> t) (fileInfoOf entry)"
    by (auto simp: st_newFiles_check)
  from update_records[OF assms(1-4), of clock] obtain t where
    t: "st_fileTracking (updateFileTracking clock state) = Some t" "recorded f clock t" by blast
  show "fi_name info \<noteq> pf_name f"
  proof
    assume "fi_name info = pf_name f"
    with entry(2) have nm: "e_name entry = pf_name f" by (simp add: fileInfoOf_def)
    with assms(5) entry(1) have same: "e_size entry = pf_size f"
        "e_modifiedTime entry = pf_modifiedTime f" by auto
    from t(2) nm same have "\<not> newOrModified t (fileInfoOf entry)"
      by (auto simp: recorded_def newOrModified_fileInfoOf)
    with entry(3) t(1) show False by simp
  qed
qed

theorem committed_file_not_new_again_witness:
  "st_uploadCompleted (blankState\<lparr>st_uploadCompleted := True, st_processedFiles := Some [processedA]\<rparr>)
   \<and> st_processedFiles (blankState\<lparr>st_uploadCompleted := True, st_processedFiles := Some [processedA]\<rparr>)
       = Some [processedA]
   \<and> processedA \<in> set [processedA]
   \<and> fileInfoOf (listed ''a.xlsx'' 100 ''2025-06-01T08:00:00.000Z'')
       \<notin> set (st_newFiles (checkSftpFiles 1751281200000
          ((updateFileTracking 1751277600000
              (blankState\<lparr>st_uploadCompleted := True, st_processedFiles := Some [processedA]\<rparr>))
           \<lparr>st_data := [listed ''a.xlsx'' 100 ''2025-06-01T08:00:00.000Z'',
                        listed ''b.xlsx'' 7 ''2025-06-02T09:30:00.000Z'']\<rparr>)))
   \<and> st_newFiles (checkSftpFiles 1751281200000
          ((updateFileTracking 1751277600000
              (blankState\<lparr>st_uploadCompleted := True, st_processedFiles := Some [processedA]\<rparr>))
           \<lparr>st_data := [listed ''a.xlsx'' 100 ''2025-06-01T08:00:00.000Z'',
                        listed ''b.xlsx'' 7 ''2025-06-02T09:30:00.000Z'']\<rparr>))
       = [fileInfoOf (listed ''b.xlsx'' 7 ''2025-06-02T09:30:00.000Z'')]"
proof -
  let ?s = "blankState\<lparr>st_uploadCompleted := True, st_processedFiles := Some [processedA]\<rparr>"
  let ?L = "[listed ''a.xlsx'' 100 ''2025-06-01T08:00:00.000Z'',
             listed ''b.xlsx'' 7 ''2025-06-02T09:30:00.000Z'']"
  have h1: "st_uploadCompleted ?s" by simp
  have h2: "st_processedFiles ?s = Some [processedA]" by simp
  have h3: "processedA \<in> set [processedA]" by simp
  have h4: "\<forall>g \<in> set [processedA]. pf_name g = pf_name processedA \<longrightarrow>
          pf_size g = pf_size processedA \<and> pf_modifiedTime g = pf_modifiedTime processedA"
    by simp
  have h5: "\<forall>entry \<in> set ?L. e_name entry = pf_name processedA \<longrightarrow>
          e_size entry = pf_size processedA \<and> e_modifiedTime entry = pf_modifiedTime processedA"
    by (simp add: listed_def processedA_def)
  have same: "fi_name (fileInfoOf (listed ''a.xlsx'' 100 ''2025-06-01T08:00:00.000Z''))
                = pf_name processedA"
    by (simp add: fileInfoOf_def listed_def processedA_def)
  have run: "st_newFiles (checkSftpFiles 1751281200000
               ((updateFileTracking 1751277600000 ?s)\<lparr>st_data := ?L\<rparr>))
       = [fileInfoOf (listed ''b.xlsx'' 7 ''2025-06-02T09:30:00.000Z'')]"
    by code_simp
  from committed_file_not_new_again[OF h1 h2 h3 h4 h5, of 1751281200000 1751277600000] same
  have "fileInfoOf (listed ''a.xlsx'' 100 ''2025-06-01T08:00:00.000Z'')
       \<notin> set (st_newFiles (checkSftpFiles 1751281200000
               ((updateFileTracking 1751277600000 ?s)\<lparr>st_data := ?L\<rparr>)))"
    by blast
  with h1 h2 h3 run show ?thesis by blast
qed

section \<open>No commit without a completed upload\<close>

text \<open>
  C8. For every state in which the upload is not completed, the tracking update returns
  the state as it was: the file-tracking map is unchanged (nothing added, updated or
  pruned), so the files stay new for the next check.
\<close>

theorem no_commit_without_upload:
  "\<not> st_uploadCompleted state \<Longrightarrow>
     updateFileTracking clock state = state
     \<and> st_fileTracking (updateFileTracking clock state) = st_fileTracking state"
  by (simp add: updateFileTracking_def)

theorem no_commit_without_upload_witness:
  "\<not> st_uploadCompleted
        (blankState\<lparr>st_fileTracking := Some knownFiles, st_processedFiles := Some [processedA]\<rparr>)
   \<and> updateFileTracking 1751277600000
        (blankState\<lparr>st_fileTracking := Some knownFiles, st_processedFiles := Some [processedA]\<rparr>)
       = blankState\<lparr>st_fileTracking := Some knownFiles, st_processedFiles := Some [processedA]\<rparr>
   \<and> st_fileTracking
        (updateFileTracking 1751277600000
           (blankState\<lparr>st_fileTracking := Some knownFiles, st_processedFiles := Some [processedA]\<rparr>))
       = Some knownFiles"
proof -
  let ?s = "blankState\<lparr>st_fileTracking := Some knownFiles, st_processedFiles := Some [processedA]\<rparr>"
  have h: "\<not> st_uploadCompleted ?s" by (simp add: blankState_def)
  show ?thesis
    using h no_commit_without_upload[OF h, of 1751277600000] by simp
qed

section \<open>A workbook without data rows\<close>

text \<open>
  C9, as amended. For every readable workbook without data rows, \<open>parseExcelData\<close>
  raises no exception and returns no records. For a file name with one of the three
  known signatures the list of warnings is empty, and the validation holds
  \<open>isValid = false\<close> and the one error "No data found in Excel file". For a file name
  with no known signature the validation is valid, without errors, and its list of
  warnings holds the one warning "No validation schema for data type: unknown".

  As stated (an empty list of warnings for every workbook without data rows, an empty
  sheet not being an error) the claim fails: a file of unknown type gets a warning, and
  a file of a known type gets the error entry.
\<close>

theorem workbook_without_data_rows:
  assumes "noDataRows wb"
  shows "parseExcelData strToNum numToStr (Readable wb) filePath fileName =
           (if includesStr fileName ''DHIS2_HIV Indicators'' then
              Inr \<lparr>px_type = ''hiv_indicators'', px_fileName = fileName,
                   px_sheetNames = SheetNames wb,
                   px_data = emptyParsedData\<lparr>pd_indicators := Some []\<rparr>,
                   px_validation = \<lparr>isValid = False, warnings = [],
                                     errors = [''No data found in Excel file'']\<rparr>\<rparr>
            else if includesStr fileName ''Direct Queries'' then
              Inr \<lparr>px_type = ''direct_queries'', px_fileName = fileName,
                   px_sheetNames = SheetNames wb,
                   px_data = emptyParsedData\<lparr>pd_queries := Some []\<rparr>,
                   px_validation = \<lparr>isValid = False, warnings = [],
                                     errors = [''No data found in Excel file'']\<rparr>\<rparr>
            else if includesStr fileName ''Q2FY25_DQ'' then
              Inr \<lparr>px_type = ''dq_sites'', px_fileName = fileName,
                   px_sheetNames = SheetNames wb,
                   px_data = emptyParsedData\<lparr>pd_sites := Some []\<rparr>,
                   px_validation = \<lparr>isValid = False, warnings = [],
                                     errors = [''No data found in Excel file'']\<rparr>\<rparr>
            else
              Inr \<lparr>px_type = ''generic'', px_fileName = fileName,
                   px_sheetNames = SheetNames wb,
                   px_data = emptyParsedData
                     \<lparr>pd_type := Some ''generic'',
                      pd_sheets := Some (map (\<lambda>sheetName. \<lparr>gs_sheetName = sheetName,
                                                gs_data = [], gs_rowCount = 0\<rparr>) (SheetNames wb)),
                      pd_totalRows := Some 0\<rparr>,
                   px_validation = \<lparr>isValid = True,
                                     warnings = [''No validation schema for data type: unknown''],
                                     errors = []\<rparr>\<rparr>)"
proof -
  from assms have a: "asObjects (firstSheet wb) = []"
    and b: "length (asArrays (firstSheet wb)) \<le> 1"
    and c: "\<forall>sh \<in> snd ` set (Sheets wb). asObjects sh = []"
    by (simp_all add: noDataRows_def)
  show ?thesis
    by (simp add: parseExcelData_def parseHIV_empty[OF a] parseDirectQueries_empty[OF b]
          parseDQSites_empty[OF b] parseGenericExcel_empty[OF c]
          validateExcelData_def validationSchemas_def emptyParsedData_def)
qed

theorem workbook_without_data_rows_witness:
  "noDataRows emptyWorkbook
   \<and> parseExcelData readDigits showInteger (Readable emptyWorkbook)
        ''/tmp/Direct Queries - Q1 2025 MoH Reports.xlsx'' ''Direct Queries - Q1 2025 MoH Reports.xlsx''
     = Inr \<lparr>px_type = ''direct_queries'',
            px_fileName = ''Direct Queries - Q1 2025 MoH Reports.xlsx'',
            px_sheetNames = [''Sheet1''],
            px_data = emptyParsedData\<lparr>pd_queries := Some []\<rparr>,
            px_validation = \<lparr>isValid = False, warnings = [],
                              errors = [''No data found in Excel file'']\<rparr>\<rparr>"
proof -
  have h: "noDataRows emptyWorkbook"
    by (simp add: noDataRows_def emptyWorkbook_def firstSheet_def)
  have n1: "\<not> includesStr ''Direct Queries - Q1 2025 MoH Reports.xlsx'' ''DHIS2_HIV Indicators''"
    by code_simp
  have n2: "includesStr ''Direct Queries - Q1 2025 MoH Reports.xlsx'' ''Direct Queries''"
    by code_simp
  have sn: "SheetNames emptyWorkbook = [''Sheet1'']" by (simp add: emptyWorkbook_def)
  show ?thesis
    using h n1 n2 sn
      workbook_without_data_rows[OF h, of readDigits showInteger
        "''/tmp/Direct Queries - Q1 2025 MoH Reports.xlsx''"
        "''Direct Queries - Q1 2025 MoH Reports.xlsx''"]
    by simp
qed

theorem empty_workbook_counterexample:
  "(\<exists>r. parseExcelData readDigits showInteger (Readable emptyWorkbook)
          ''/tmp/facility-report.xlsx'' ''facility-report.xlsx'' = Inr r
        \<and> warnings (px_validation r) = [''No validation schema for data type: unknown'']
        \<and> warnings (px_validation r) \<noteq> [])
   \<and> (\<exists>r. parseExcelData readDigits showInteger (Readable emptyWorkbook)
          ''/tmp/Direct Queries.xlsx'' ''Direct Queries.xlsx'' = Inr r
        \<and> \<not> isValid (px_validation r)
        \<and> errors (px_validation r) = [''No data found in Excel file''])"
proof -
  have a: "\<not> includesStr ''facility-report.xlsx'' ''DHIS2_HIV Indicators''"
          "\<not> includesStr ''facility-report.xlsx'' ''Direct Queries''"
          "\<not> includesStr ''facility-report.xlsx'' ''Q2FY25_DQ''"
          "\<not> includesStr ''Direct Queries.xlsx'' ''DHIS2_HIV Indicators''"
          "includesStr ''Direct Queries.xlsx'' ''Direct Queries''"
    by code_simp+
  show ?thesis
    by (simp add: parseExcelData_def a parseGenericExcel_def parseDirectQueries_def
          emptyWorkbook_def firstSheet_def validateExcelData_def validationSchemas_def
          emptyParsedData_def Let_def)
qed

section \<open>The extension filter of the check job\<close>

text \<open>
  C10. For every listing and every tracking state: each member of the new-files set, and
  each entry of the current-file map, comes from a listed entry of type \<open>file\<close> whose
  name ends, case ignored, in \<open>.xlsx\<close> or \<open>.xls\<close>. So a file with another extension,
  or an entry that is not a file, is never put into either of them, whatever the
  tracking map holds.
\<close>

theorem only_supported_files_are_classified:
  "(\<forall>info \<in> set (st_newFiles (checkSftpFiles clock state)).
      \<exists>file \<in> set (st_data state).
         info = fileInfoOf file \<and> e_type file = ''file''
         \<and> (suffix ''.xlsx'' (toLowerCase (e_name file))
            \<or> suffix ''.xls'' (toLowerCase (e_name file))))
   \<and> (\<exists>current. st_currentFileList (checkSftpFiles clock state) = Some current
        \<and> (\<forall>entry \<in> set current.
              \<exists>file \<in> set (st_data state).
                 entry = (e_name file, fileInfoOf file) \<and> e_type file = ''file''
                 \<and> (suffix ''.xlsx'' (toLowerCase (e_name file))
                    \<or> suffix ''.xls'' (toLowerCase (e_name file)))))"
proof (intro conjI)
  show "\<forall>info \<in> set (st_newFiles (checkSftpFiles clock state)).
      \<exists>file \<in> set (st_data state).
         info = fileInfoOf file \<and> e_type file = ''file''
         \<and> (suffix ''.xlsx'' (toLowerCase (e_name file))
            \<or> suffix ''.xls'' (toLowerCase (e_name file)))"
    unfolding st_newFiles_check using supportedFile_iff by auto
next
  from st_currentFileList_entries[of clock state] obtain cur where
    cur: "st_currentFileList (checkSftpFiles clock state) = Some cur"
         "\<forall>p \<in> set cur. \<exists>file \<in> set (st_data state).
               supportedFile file \<and> p = (e_name file, fileInfoOf file)"
    by blast
  from cur(2) have "\<forall>entry \<in> set cur.
              \<exists>file \<in> set (st_data state).
                 entry = (e_name file, fileInfoOf file) \<and> e_type file = ''file''
                 \<and> (suffix ''.xlsx'' (toLowerCase (e_name file))
                    \<or> suffix ''.xls'' (toLowerCase (e_name file)))"
    using supportedFile_iff by blast
  with cur(1) show "\<exists>current. st_currentFileList (checkSftpFiles clock state) = Some current
        \<and> (\<forall>entry \<in> set current.
              \<exists>file \<in> set (st_data state).
                 entry = (e_name file, fileInfoOf file) \<and> e_type file = ''file''
                 \<and> (suffix ''.xlsx'' (toLowerCase (e_name file))
                    \<or> suffix ''.xls'' (toLowerCase (e_name file))))"
    by blast
qed

theorem only_supported_files_are_classified_witness:
  "fileInfoOf (listed ''B.XLS'' 7 ''2025-06-02T09:30:00.000Z'')
     \<in> set (st_newFiles (checkSftpFiles 1751277600000
           (blankState\<lparr>st_data := [listed ''notes.txt'' 12 ''2025-06-01T08:00:00.000Z'',
                                    listed ''B.XLS'' 7 ''2025-06-02T09:30:00.000Z'']\<rparr>)))
   \<and> (\<exists>file \<in> set (st_data
           (blankState\<lparr>st_data := [listed ''notes.txt'' 12 ''2025-06-01T08:00:00.000Z'',
                                    listed ''B.XLS'' 7 ''2025-06-02T09:30:00.000Z'']\<rparr>)).
         fileInfoOf (listed ''B.XLS'' 7 ''2025-06-02T09:30:00.000Z'') = fileInfoOf file
         \<and> e_type file = ''file''
         \<and> (suffix ''.xlsx'' (toLowerCase (e_name file))
            \<or> suffix ''.xls'' (toLowerCase (e_name file))))
   \<and> st_currentFileList (checkSftpFiles 1751277600000
           (blankState\<lparr>st_data := [listed ''notes.txt'' 12 ''2025-06-01T08:00:00.000Z'',
                                    listed ''B.XLS'' 7 ''2025-06-02T09:30:00.000Z'']\<rparr>))
       = Some [(''B.XLS'', fileInfoOf (listed ''B.XLS'' 7 ''2025-06-02T09:30:00.000Z''))]"
proof -
  let ?s = "blankState\<lparr>st_data := [listed ''notes.txt'' 12 ''2025-06-01T08:00:00.000Z'',
                                    listed ''B.XLS'' 7 ''2025-06-02T09:30:00.000Z'']\<rparr>"
  have m: "fileInfoOf (listed ''B.XLS'' 7 ''2025-06-02T09:30:00.000Z'')
     \<in> set (st_newFiles (checkSftpFiles 1751277600000 ?s))"
    by code_simp
  have c: "st_currentFileList (checkSftpFiles 1751277600000 ?s)
       = Some [(''B.XLS'', fileInfoOf (listed ''B.XLS'' 7 ''2025-06-02T09:30:00.000Z''))]"
    by code_simp
  from only_supported_files_are_classified[of 1751277600000 ?s] m
  have "\<exists>file \<in> set (st_data ?s).
         fileInfoOf (listed ''B.XLS'' 7 ''2025-06-02T09:30:00.000Z'') = fileInfoOf file
         \<and> e_type file = ''file''
         \<and> (suffix ''.xlsx'' (toLowerCase (e_name file))
            \<or> suffix ''.xls'' (toLowerCase (e_name file)))"
    by blast
  with m c show ?thesis by blast
qed


end
